theory Spec2Isabelle
  imports Complex_Main "HOL-Library.Word"
begin

section \<open>Tensors\<close>

text \<open>
  The module works on tensors of the framework. The docstrings fix their ranks: an
  activation is 4-D (\<open>B, Tt, Ts, C\<close> at the interface of the block and \<open>B, C, Tt, Ts\<close>
  inside it), a mask is 2-D. A tensor is modelled by its sizes and the element at each
  index; the element outside the sizes is never read by a result inside them. The rank is
  fixed by the type, so a call with a tensor of another rank (an exception of the
  framework) is outside the model.

  The element type \<open>'a\<close> is left open: the arithmetic of the framework on it (floating
  point) is a parameter of the model, see \<open>torch\<close> and \<open>arith\<close> below.
\<close>

record 'a tensor4 =
  dim0 :: nat
  dim1 :: nat
  dim2 :: nat
  dim3 :: nat
  el :: "nat \<Rightarrow> nat \<Rightarrow> nat \<Rightarrow> nat \<Rightarrow> 'a"

record 'a tensor2 =
  len0 :: nat
  len1 :: nat
  el2 :: "nat \<Rightarrow> nat \<Rightarrow> 'a"

text \<open>Exceptions, of Python and of the framework, are values.\<close>

datatype error = ZeroDivisionError | AttributeError | IndexError | RuntimeError | ValueError

text \<open>\<open>x.permute(0, 3, 1, 2)\<close>: from \<open>B, Tt, Ts, C\<close> to \<open>B, C, Tt, Ts\<close>.\<close>

definition permute_0312 :: "'a tensor4 \<Rightarrow> 'a tensor4" where
  "permute_0312 x =
     \<lparr>dim0 = dim0 x, dim1 = dim3 x, dim2 = dim1 x, dim3 = dim2 x,
      el = (\<lambda>b c t s. el x b t s c)\<rparr>"

text \<open>\<open>x.permute(0, 2, 3, 1)\<close>: from \<open>B, C, Tt, Ts\<close> back to \<open>B, Tt, Ts, C\<close>.\<close>

definition permute_0231 :: "'a tensor4 \<Rightarrow> 'a tensor4" where
  "permute_0231 x =
     \<lparr>dim0 = dim0 x, dim1 = dim2 x, dim2 = dim3 x, dim3 = dim1 x,
      el = (\<lambda>b t s c. el x b c t s)\<rparr>"

text \<open>
  \<open>torch.cat(xs, 1)\<close>: the tensors of a non-empty list, which agree on every size but
  that of dimension 1, one after the other along dimension 1. An empty list and sizes
  that do not agree raise in the framework.
\<close>

definition same_outer :: "'a tensor4 \<Rightarrow> 'a tensor4 \<Rightarrow> bool" where
  "same_outer x y \<longleftrightarrow> dim0 y = dim0 x \<and> dim2 y = dim2 x \<and> dim3 y = dim3 x"

fun cat_el :: "'a tensor4 list \<Rightarrow> 'a \<Rightarrow> nat \<Rightarrow> nat \<Rightarrow> nat \<Rightarrow> nat \<Rightarrow> 'a" where
  "cat_el [] d b c t s = d"
| "cat_el (x # xs) d b c t s =
     (if c < dim1 x then el x b c t s else cat_el xs d b (c - dim1 x) t s)"

definition cat1 :: "'a tensor4 list \<Rightarrow> error + 'a tensor4" where
  "cat1 xs =
     (case xs of
        [] \<Rightarrow> Inl RuntimeError
      | x # ys \<Rightarrow>
          if list_all (same_outer x) ys
          then Inr \<lparr>dim0 = dim0 x, dim1 = sum_list (map dim1 xs), dim2 = dim2 x, dim3 = dim3 x,
                    el = cat_el xs (el x 0 0 0 0)\<rparr>
          else Inl RuntimeError)"

text \<open>
  \<open>mask.unsqueeze(1).unsqueeze(1)\<close> takes a mask of sizes \<open>B, Ts\<close> to \<open>B, 1, 1, Ts\<close>;
  \<open>mask.unsqueeze(1).unsqueeze(-1)\<close> takes one of sizes \<open>B, Tt\<close> to \<open>B, 1, Tt, 1\<close>.
\<close>

definition unsqueeze_1_1 :: "'a tensor2 \<Rightarrow> 'a tensor4" where
  "unsqueeze_1_1 m =
     \<lparr>dim0 = len0 m, dim1 = 1, dim2 = 1, dim3 = len1 m, el = (\<lambda>b c t s. el2 m b s)\<rparr>"

definition unsqueeze_1_last :: "'a tensor2 \<Rightarrow> 'a tensor4" where
  "unsqueeze_1_last m =
     \<lparr>dim0 = len0 m, dim1 = 1, dim2 = len1 m, dim3 = 1, el = (\<lambda>b c t s. el2 m b t)\<rparr>"

text \<open>
  Broadcasting: two sizes go together when they are equal or one of them is 1; the size
  of 1 is stretched to the other size, and the index into a stretched dimension is 0.
\<close>

definition broadcastable :: "nat \<Rightarrow> nat \<Rightarrow> bool" where
  "broadcastable m n \<longleftrightarrow> m = n \<or> m = 1 \<or> n = 1"

definition bdim :: "nat \<Rightarrow> nat \<Rightarrow> nat" where
  "bdim m n = (if m = 1 then n else m)"

definition bidx :: "nat \<Rightarrow> nat \<Rightarrow> nat" where
  "bidx d i = (if d = 1 then 0 else i)"

text \<open>
  \<open>x.masked_fill(mask, v)\<close>, the out-of-place call: \<open>x\<close> and the mask are broadcast
  together, and the result holds \<open>v\<close> wherever the mask is true and the element of \<open>x\<close>
  elsewhere. Sizes that do not go together raise in the framework.
\<close>

definition masked_fill :: "'a tensor4 \<Rightarrow> bool tensor4 \<Rightarrow> 'a \<Rightarrow> error + 'a tensor4" where
  "masked_fill x m v =
     (if broadcastable (dim0 x) (dim0 m) \<and> broadcastable (dim1 x) (dim1 m) \<and>
         broadcastable (dim2 x) (dim2 m) \<and> broadcastable (dim3 x) (dim3 m)
      then Inr \<lparr>dim0 = bdim (dim0 x) (dim0 m), dim1 = bdim (dim1 x) (dim1 m),
                dim2 = bdim (dim2 x) (dim2 m), dim3 = bdim (dim3 x) (dim3 m),
                el = (\<lambda>b c t s.
                  if el m (bidx (dim0 m) b) (bidx (dim1 m) c) (bidx (dim2 m) t) (bidx (dim3 m) s)
                  then v
                  else el x (bidx (dim0 x) b) (bidx (dim1 x) c) (bidx (dim2 x) t)
                         (bidx (dim3 x) s))\<rparr>
      else Inl RuntimeError)"

section \<open>The framework\<close>

text \<open>
  \<open>args\<close> is the namespace of hyper-parameters the constructors read. The two attributes
  whose names the layer and the convolution also use for their own are prefixed.
\<close>

record args =
  divide_channels :: int
  num_layers :: int
  growth_rate :: int
  args_memory_efficient :: bool
  convolution_dropout :: real
  bn_size :: int
  args_kernel_size :: int
  source_dilation :: int
  target_dilation :: int

text \<open>
  The modules of the framework that hold learned parameters: what the constructor was
  given, and the parameters (of an open type \<open>'p\<close>).
\<close>

record 'p Linear =
  in_features :: int
  out_features :: int
  lin_weight :: 'p
  lin_bias :: "'p option"

record 'p Conv2d =
  in_channels :: int
  out_channels :: int
  kernel_size :: int
  stride :: int
  conv_weight :: 'p
  conv_bias :: "'p option"

text \<open>
  What the source calls and does not define is a parameter of the model: the functions of
  the framework and \<open>MaskedConvolution\<close>, a module of type \<open>'m\<close>. \<open>'w\<close> is the state they
  read and change (the random generator, the buffers of the incremental decoding that
  \<open>incremental_state\<close>, of type \<open>'i\<close>, refers to). Each may raise.
  \<^item> \<open>relu_s\<close> is \<open>F.relu\<close> on one element and \<open>zero_s\<close> the element that the fill value
    \<open>0\<close> becomes;
  \<^item> \<open>requires_grad\<close> reads the attribute of this name of a tensor, and \<open>checkpoint\<close> is
    \<open>cp.checkpoint\<close>, given the function and the list of its arguments;
  \<^item> \<open>dropout x p training\<close> is \<open>F.dropout\<close>;
  \<^item> \<open>linear_parameters\<close> and \<open>conv2d_parameters\<close> draw the weight and the bias of a new
    \<open>nn.Linear\<close> and \<open>nn.Conv2d\<close>, \<open>xavier_uniform\<close> and \<open>init_constant\<close> are
    \<open>nn.init.xavier_uniform_\<close> and \<open>nn.init.constant_\<close>, and \<open>linear\<close> and \<open>conv2d\<close> are
    the forward passes of the two modules;
  \<^item> \<open>MaskedConvolution\<close> is the constructor of the masked convolution, given the input
    channels, the output channels, the kernel size, \<open>args\<close> and the padding, and \<open>mconv\<close>
    its forward pass, given the tensor and \<open>incremental_state\<close>.
\<close>

record ('a, 'p, 'm, 'i, 'w) torch =
  relu_s :: "'a \<Rightarrow> 'a"
  zero_s :: 'a
  requires_grad :: "'a tensor4 \<Rightarrow> bool"
  checkpoint ::
    "('a tensor4 list \<Rightarrow> error + 'a tensor4) \<Rightarrow> 'a tensor4 list \<Rightarrow> error + 'a tensor4"
  dropout :: "'a tensor4 \<Rightarrow> real \<Rightarrow> bool \<Rightarrow> 'w \<Rightarrow> error + 'a tensor4 \<times> 'w"
  linear_parameters :: "int \<Rightarrow> int \<Rightarrow> bool \<Rightarrow> 'w \<Rightarrow> error + ('p \<times> 'p option) \<times> 'w"
  xavier_uniform :: "'p \<Rightarrow> 'w \<Rightarrow> 'p \<times> 'w"
  init_constant :: "'p \<Rightarrow> real \<Rightarrow> 'p"
  linear :: "'p Linear \<Rightarrow> 'a tensor4 \<Rightarrow> error + 'a tensor4"
  conv2d_parameters ::
    "int \<Rightarrow> int \<Rightarrow> int \<Rightarrow> int \<Rightarrow> bool \<Rightarrow> 'w \<Rightarrow> error + ('p \<times> 'p option) \<times> 'w"
  conv2d :: "'p Conv2d \<Rightarrow> 'a tensor4 \<Rightarrow> error + 'a tensor4"
  MaskedConvolution :: "int \<Rightarrow> int \<Rightarrow> int \<Rightarrow> args \<Rightarrow> int \<times> int \<Rightarrow> 'w \<Rightarrow> error + 'm \<times> 'w"
  mconv :: "'m \<Rightarrow> 'a tensor4 \<Rightarrow> 'i \<Rightarrow> 'w \<Rightarrow> error + 'a tensor4 \<times> 'w"

text \<open>\<open>F.relu\<close> works element by element.\<close>

definition F_relu :: "('a, 'p, 'm, 'i, 'w) torch \<Rightarrow> 'a tensor4 \<Rightarrow> 'a tensor4" where
  "F_relu T x = x\<lparr>el := (\<lambda>b c t s. relu_s T (el x b c t s))\<rparr>"

text \<open>\<open>nn.Linear(in_features, out_features, bias)\<close> and \<open>nn.Conv2d(...)\<close>.\<close>

definition nn_Linear ::
  "('a, 'p, 'm, 'i, 'w) torch \<Rightarrow> int \<Rightarrow> int \<Rightarrow> bool \<Rightarrow> 'w \<Rightarrow> error + 'p Linear \<times> 'w" where
  "nn_Linear T i out b w =
     (case linear_parameters T i out b w of
        Inl e \<Rightarrow> Inl e
      | Inr ((wt, bs), w') \<Rightarrow>
          Inr (\<lparr>in_features = i, out_features = out, lin_weight = wt, lin_bias = bs\<rparr>, w'))"

definition nn_Conv2d ::
  "('a, 'p, 'm, 'i, 'w) torch \<Rightarrow> int \<Rightarrow> int \<Rightarrow> int \<Rightarrow> int \<Rightarrow> bool \<Rightarrow> 'w \<Rightarrow>
   error + 'p Conv2d \<times> 'w" where
  "nn_Conv2d T i out k st b w =
     (case conv2d_parameters T i out k st b w of
        Inl e \<Rightarrow> Inl e
      | Inr ((wt, bs), w') \<Rightarrow>
          Inr (\<lparr>in_channels = i, out_channels = out, kernel_size = k, stride = st,
                conv_weight = wt, conv_bias = bs\<rparr>, w'))"

section \<open>The helper Linear\<close>

definition Linear ::
  "('a, 'p, 'm, 'i, 'w) torch \<Rightarrow> int \<Rightarrow> int \<Rightarrow> bool \<Rightarrow> 'w \<Rightarrow> error + 'p Linear \<times> 'w" where
  "Linear T i out b w =
     (case nn_Linear T i out b w of
        Inl e \<Rightarrow> Inl e
      | Inr (m, w1) \<Rightarrow>
          (let (wt, w2) = xavier_uniform T (lin_weight m) w1;
               m1 = m\<lparr>lin_weight := wt\<rparr>;
               m2 = (if b then m1\<lparr>lin_bias := map_option (\<lambda>p. init_constant T p 0) (lin_bias m1)\<rparr>
                     else m1)
           in Inr (m2, w2)))"

section \<open>The dense layer\<close>

record ('p, 'm) DenseLayer =
  memory_efficient :: bool
  drop_rate :: real
  conv1 :: "'p Conv2d"
  mconv2 :: 'm
  training :: bool

definition DenseLayer_init ::
  "('a, 'p, 'm, 'i, 'w) torch \<Rightarrow> int \<Rightarrow> args \<Rightarrow> 'w \<Rightarrow> error + ('p, 'm) DenseLayer \<times> 'w" where
  "DenseLayer_init T num_input_features a w =
     (let inter_features = bn_size a * growth_rate a;
          k = args_kernel_size a
      in case nn_Conv2d T num_input_features inter_features 1 1 False w of
           Inl e \<Rightarrow> Inl e
         | Inr (c1, w1) \<Rightarrow>
             (let dilsrc = source_dilation a;
                  diltrg = target_dilation a;
                  padding_trg = diltrg * (k - 1) div 2;
                  padding_src = dilsrc * (k - 1) div 2
              in case MaskedConvolution T inter_features (growth_rate a) k a
                        (padding_trg, padding_src) w1 of
                   Inl e \<Rightarrow> Inl e
                 | Inr (m2, w2) \<Rightarrow>
                     Inr (\<lparr>memory_efficient = args_memory_efficient a,
                           drop_rate = convolution_dropout a,
                           conv1 = c1, mconv2 = m2, training = True\<rparr>, w2)))"

definition bottleneck_function ::
  "('a, 'p, 'm, 'i, 'w) torch \<Rightarrow> ('p, 'm) DenseLayer \<Rightarrow> 'a tensor4 list \<Rightarrow> error + 'a tensor4" where
  "bottleneck_function T L inputs =
     (case cat1 inputs of
        Inl e \<Rightarrow> Inl e
      | Inr c \<Rightarrow> conv2d T (conv1 L) (F_relu T c))"

text \<open>
  The two \<open>masked_fill\<close> of the forward pass, under \<open>if self.training\<close>: first the encoder
  mask, then the decoder mask, each when it is not \<open>None\<close>.
\<close>

definition apply_masks ::
  "('a, 'p, 'm, 'i, 'w) torch \<Rightarrow> bool \<Rightarrow> bool tensor2 option \<Rightarrow> bool tensor2 option \<Rightarrow>
   'a tensor4 \<Rightarrow> error + 'a tensor4" where
  "apply_masks T train encoder_mask decoder_mask x =
     (if train
      then (case (case encoder_mask of
                    None \<Rightarrow> Inr x
                  | Some m \<Rightarrow> masked_fill x (unsqueeze_1_1 m) (zero_s T)) of
              Inl e \<Rightarrow> Inl e
            | Inr x1 \<Rightarrow>
                (case decoder_mask of
                   None \<Rightarrow> Inr x1
                 | Some m \<Rightarrow> masked_fill x1 (unsqueeze_1_last m) (zero_s T)))
      else Inr x)"

definition DenseLayer_forward ::
  "('a, 'p, 'm, 'i, 'w) torch \<Rightarrow> ('p, 'm) DenseLayer \<Rightarrow> 'a tensor4 list \<Rightarrow>
   bool tensor2 option \<Rightarrow> bool tensor2 option \<Rightarrow> 'i \<Rightarrow> 'w \<Rightarrow> error + 'a tensor4 \<times> 'w" where
  "DenseLayer_forward T L prev_features encoder_mask decoder_mask incremental_state w =
     (case (if memory_efficient L \<and> list_ex (requires_grad T) prev_features
            then checkpoint T (bottleneck_function T L) prev_features
            else bottleneck_function T L prev_features) of
        Inl e \<Rightarrow> Inl e
      | Inr x \<Rightarrow>
          (case apply_masks T (training L) encoder_mask decoder_mask (F_relu T x) of
             Inl e \<Rightarrow> Inl e
           | Inr x1 \<Rightarrow>
               (case mconv T (mconv2 L) x1 incremental_state w of
                  Inl e \<Rightarrow> Inl e
                | Inr (x2, w1) \<Rightarrow>
                    if drop_rate L \<noteq> 0
                    then dropout T x2 (drop_rate L) (training L) w1
                    else Inr (x2, w1))))"

section \<open>The block\<close>

record ('p, 'm) DenseNetNoNorm =
  reduce_channels :: "'p Linear option"
  dense_layers :: "('p, 'm) DenseLayer list"
  output_channels :: int

text \<open>
  The loop of the constructor, \<open>for _ in range(num_layers)\<close>: \<open>n\<close> layers more, the next
  one on \<open>num_features\<close> channels. It returns the layers and the last \<open>num_features\<close>.
\<close>

fun make_layers ::
  "('a, 'p, 'm, 'i, 'w) torch \<Rightarrow> args \<Rightarrow> nat \<Rightarrow> int \<Rightarrow> 'w \<Rightarrow>
   error + (('p, 'm) DenseLayer list \<times> int) \<times> 'w" where
  "make_layers T a 0 num_features w = Inr (([], num_features), w)"
| "make_layers T a (Suc n) num_features w =
     (case DenseLayer_init T num_features a w of
        Inl e \<Rightarrow> Inl e
      | Inr (l, w1) \<Rightarrow>
          (case make_layers T a n (num_features + growth_rate a) w1 of
             Inl e \<Rightarrow> Inl e
           | Inr ((ls, nf), w2) \<Rightarrow> Inr ((l # ls, nf), w2)))"

definition DenseNetNoNorm_init ::
  "('a, 'p, 'm, 'i, 'w) torch \<Rightarrow> int \<Rightarrow> args \<Rightarrow> 'w \<Rightarrow> error + ('p, 'm) DenseNetNoNorm \<times> 'w" where
  "DenseNetNoNorm_init T num_init_features a w =
     (case (if divide_channels a > 1
            then (case Linear T num_init_features (num_init_features div divide_channels a)
                         True w of
                    Inl e \<Rightarrow> Inl e
                  | Inr (m, w1) \<Rightarrow> Inr (Some m, w1))
            else Inr (None, w)) of
        Inl e \<Rightarrow> Inl e
      | Inr (rc, w1) \<Rightarrow>
          if divide_channels a = 0 then Inl ZeroDivisionError
          else (case make_layers T a (nat (num_layers a))
                       (num_init_features div divide_channels a) w1 of
                  Inl e \<Rightarrow> Inl e
                | Inr ((ls, nf), w2) \<Rightarrow>
                    Inr (\<lparr>reduce_channels = rc, dense_layers = ls, output_channels = nf\<rparr>, w2)))"

text \<open>
  The loop of the forward pass: each layer is called on the list of features so far, and
  what it returns is appended to the list.
\<close>

fun run_layers ::
  "('a, 'p, 'm, 'i, 'w) torch \<Rightarrow> ('p, 'm) DenseLayer list \<Rightarrow> 'a tensor4 list \<Rightarrow>
   bool tensor2 option \<Rightarrow> bool tensor2 option \<Rightarrow> 'i \<Rightarrow> 'w \<Rightarrow> error + 'a tensor4 list \<times> 'w" where
  "run_layers T [] features encoder_mask decoder_mask incremental_state w = Inr (features, w)"
| "run_layers T (layer # layers) features encoder_mask decoder_mask incremental_state w =
     (case DenseLayer_forward T layer features encoder_mask decoder_mask incremental_state w of
        Inl e \<Rightarrow> Inl e
      | Inr (x, w1) \<Rightarrow>
          run_layers T layers (features @ [x]) encoder_mask decoder_mask incremental_state w1)"

definition DenseNetNoNorm_forward ::
  "('a, 'p, 'm, 'i, 'w) torch \<Rightarrow> ('p, 'm) DenseNetNoNorm \<Rightarrow> 'a tensor4 \<Rightarrow>
   bool tensor2 option \<Rightarrow> bool tensor2 option \<Rightarrow> 'i \<Rightarrow> 'w \<Rightarrow> error + 'a tensor4 \<times> 'w" where
  "DenseNetNoNorm_forward T net x encoder_mask decoder_mask incremental_state w =
     (case (case reduce_channels net of
              None \<Rightarrow> Inr x
            | Some m \<Rightarrow> linear T m x) of
        Inl e \<Rightarrow> Inl e
      | Inr x1 \<Rightarrow>
          (case run_layers T (dense_layers net) [permute_0312 x1]
                  encoder_mask decoder_mask incremental_state w of
             Inl e \<Rightarrow> Inl e
           | Inr (features, w1) \<Rightarrow>
               (case cat1 features of
                  Inl e \<Rightarrow> Inl e
                | Inr x2 \<Rightarrow> Inr (permute_0231 x2, w1))))"


section \<open>The two normalisations\<close>

text \<open>
  The arithmetic on elements is a parameter: \<open>mean_s\<close> and \<open>std_s\<close> are what the framework
  computes for the values along one dimension, \<open>float_s\<close> is Python's \<open>float\<close> of an
  integer. Python's own floats (\<open>eps\<close>, \<open>momentum\<close>, \<open>maf\<close>) are of the element type too.
\<close>

record 'a arith =
  plus_s :: "'a \<Rightarrow> 'a \<Rightarrow> 'a"
  minus_s :: "'a \<Rightarrow> 'a \<Rightarrow> 'a"
  times_s :: "'a \<Rightarrow> 'a \<Rightarrow> 'a"
  divide_s :: "'a \<Rightarrow> 'a \<Rightarrow> 'a"
  mean_s :: "'a list \<Rightarrow> 'a"
  std_s :: "'a list \<Rightarrow> 'a"
  nought_s :: 'a
  one_s :: 'a
  float_s :: "int \<Rightarrow> 'a"

text \<open>\<open>torch.ones\<close> and \<open>torch.zeros\<close> are tensors of one value; a negative size raises.\<close>

definition full :: "int \<Rightarrow> int \<Rightarrow> int \<Rightarrow> int \<Rightarrow> 'a \<Rightarrow> error + 'a tensor4" where
  "full n0 n1 n2 n3 v =
     (if n0 < 0 \<or> n1 < 0 \<or> n2 < 0 \<or> n3 < 0 then Inl RuntimeError
      else Inr \<lparr>dim0 = nat n0, dim1 = nat n1, dim2 = nat n2, dim3 = nat n3,
                el = (\<lambda>b c t s. v)\<rparr>)"

text \<open>
  A reduction \<open>f\<close> along one dimension with \<open>keepdim=True\<close>: \<open>x.mean(d, keepdim=True)\<close> is
  the reduction by \<open>mean_s\<close>, \<open>x.std(d, keepdim=True)\<close> the one by \<open>std_s\<close>.
\<close>

definition reduce0 :: "('a list \<Rightarrow> 'a) \<Rightarrow> 'a tensor4 \<Rightarrow> 'a tensor4" where
  "reduce0 f x =
     x\<lparr>dim0 := 1, el := (\<lambda>b c t s. f (map (\<lambda>k. el x k c t s) [0..<dim0 x]))\<rparr>"

definition reduce1 :: "('a list \<Rightarrow> 'a) \<Rightarrow> 'a tensor4 \<Rightarrow> 'a tensor4" where
  "reduce1 f x =
     x\<lparr>dim1 := 1, el := (\<lambda>b c t s. f (map (\<lambda>k. el x b k t s) [0..<dim1 x]))\<rparr>"

definition reduce2 :: "('a list \<Rightarrow> 'a) \<Rightarrow> 'a tensor4 \<Rightarrow> 'a tensor4" where
  "reduce2 f x =
     x\<lparr>dim2 := 1, el := (\<lambda>b c t s. f (map (\<lambda>k. el x b c k s) [0..<dim2 x]))\<rparr>"

definition reduce3 :: "('a list \<Rightarrow> 'a) \<Rightarrow> 'a tensor4 \<Rightarrow> 'a tensor4" where
  "reduce3 f x =
     x\<lparr>dim3 := 1, el := (\<lambda>b c t s. f (map (\<lambda>k. el x b c t k) [0..<dim3 x]))\<rparr>"

text \<open>
  An operation on two tensors, element by element, with broadcasting; sizes that do not
  go together raise in the framework.
\<close>

definition broadcast2 ::
  "('a \<Rightarrow> 'a \<Rightarrow> 'a) \<Rightarrow> 'a tensor4 \<Rightarrow> 'a tensor4 \<Rightarrow> error + 'a tensor4" where
  "broadcast2 f x y =
     (if broadcastable (dim0 x) (dim0 y) \<and> broadcastable (dim1 x) (dim1 y) \<and>
         broadcastable (dim2 x) (dim2 y) \<and> broadcastable (dim3 x) (dim3 y)
      then Inr \<lparr>dim0 = bdim (dim0 x) (dim0 y), dim1 = bdim (dim1 x) (dim1 y),
                dim2 = bdim (dim2 x) (dim2 y), dim3 = bdim (dim3 x) (dim3 y),
                el = (\<lambda>b c t s.
                  f (el x (bidx (dim0 x) b) (bidx (dim1 x) c) (bidx (dim2 x) t) (bidx (dim3 x) s))
                    (el y (bidx (dim0 y) b) (bidx (dim1 y) c) (bidx (dim2 y) t) (bidx (dim3 y) s)))\<rparr>
      else Inl RuntimeError)"

text \<open>An operation of a tensor and a Python float.\<close>

definition map_tensor :: "('a \<Rightarrow> 'a) \<Rightarrow> 'a tensor4 \<Rightarrow> 'a tensor4" where
  "map_tensor f x = x\<lparr>el := (\<lambda>b c t s. f (el x b c t s))\<rparr>"

text \<open>
  The last line of both forward passes,
  \<open>gamma * (x - mean) / (std + eps) + beta\<close>, as Python groups it.
\<close>

definition normalize ::
  "'a arith \<Rightarrow> 'a tensor4 \<Rightarrow> 'a tensor4 \<Rightarrow> 'a tensor4 \<Rightarrow> 'a tensor4 \<Rightarrow> 'a \<Rightarrow> 'a tensor4 \<Rightarrow>
   error + 'a tensor4" where
  "normalize A gamma x mean std eps beta =
     (case broadcast2 (minus_s A) x mean of
        Inl e \<Rightarrow> Inl e
      | Inr centred \<Rightarrow>
          (case broadcast2 (times_s A) gamma centred of
             Inl e \<Rightarrow> Inl e
           | Inr scaled \<Rightarrow>
               (case broadcast2 (divide_s A) scaled (map_tensor (\<lambda>v. plus_s A v eps) std) of
                  Inl e \<Rightarrow> Inl e
                | Inr q \<Rightarrow> broadcast2 (plus_s A) q beta)))"

record 'a PervasiveLayerNorm =
  ln_eps :: 'a
  ln_gamma :: "'a tensor4"
  ln_beta :: "'a tensor4"

definition PervasiveLayerNorm_init :: "'a arith \<Rightarrow> int \<Rightarrow> 'a \<Rightarrow> error + 'a PervasiveLayerNorm" where
  "PervasiveLayerNorm_init A num_features eps =
     (case full 1 num_features 1 1 (one_s A) of
        Inl e \<Rightarrow> Inl e
      | Inr g \<Rightarrow>
          (case full 1 num_features 1 1 (nought_s A) of
             Inl e \<Rightarrow> Inl e
           | Inr b \<Rightarrow> Inr \<lparr>ln_eps = eps, ln_gamma = g, ln_beta = b\<rparr>))"

definition PervasiveLayerNorm_forward ::
  "'a arith \<Rightarrow> 'a PervasiveLayerNorm \<Rightarrow> 'a tensor4 \<Rightarrow> error + 'a tensor4" where
  "PervasiveLayerNorm_forward A m x =
     (let mean = reduce3 (mean_s A) (reduce1 (mean_s A) x);
          std = reduce3 (std_s A) (reduce1 (std_s A) x)
      in normalize A (ln_gamma m) x mean std (ln_eps m) (ln_beta m))"

text \<open>
  The buffers of \<open>PervasiveBatchNorm\<close> are attributes of the module only when the
  constructor registered them: \<open>None\<close> is an attribute that is not there, and reading it
  raises \<open>AttributeError\<close>. \<open>num_batches_tracked\<close> is a tensor of one 64-bit integer.
\<close>

record 'a PervasiveBatchNorm =
  bn_eps :: 'a
  momentum :: "'a option"
  bn_gamma :: "'a tensor4"
  bn_beta :: "'a tensor4"
  track_running_stats :: bool
  running_mean :: "'a tensor4 option"
  running_std :: "'a tensor4 option"
  num_batches_tracked :: "64 word option"
  bn_training :: bool

definition PervasiveBatchNorm_init ::
  "'a arith \<Rightarrow> int \<Rightarrow> bool \<Rightarrow> 'a \<Rightarrow> 'a option \<Rightarrow> error + 'a PervasiveBatchNorm" where
  "PervasiveBatchNorm_init A num_features track eps mom =
     (case full 1 num_features 1 1 (one_s A) of
        Inl e \<Rightarrow> Inl e
      | Inr ones \<Rightarrow>
          (case full 1 num_features 1 1 (nought_s A) of
             Inl e \<Rightarrow> Inl e
           | Inr zeros \<Rightarrow>
               Inr \<lparr>bn_eps = eps, momentum = mom, bn_gamma = ones, bn_beta = zeros,
                    track_running_stats = track,
                    running_mean = (if track then Some zeros else None),
                    running_std = (if track then Some ones else None),
                    num_batches_tracked = (if track then Some 0 else None),
                    bn_training = True\<rparr>))"

text \<open>
  \<open>reset_running_stats\<close> does nothing on a module without \<open>track_running_stats\<close>;
  otherwise it zeroes \<open>running_mean\<close>, fills \<open>running_std\<close> with ones and zeroes
  \<open>num_batches_tracked\<close>, one after the other. It returns the module as it leaves it.
\<close>

definition reset_running_stats ::
  "'a arith \<Rightarrow> 'a PervasiveBatchNorm \<Rightarrow> (error + unit) \<times> 'a PervasiveBatchNorm" where
  "reset_running_stats A m =
     (if track_running_stats m
      then (case running_mean m of
              None \<Rightarrow> (Inl AttributeError, m)
            | Some rm \<Rightarrow>
                (let m1 = m\<lparr>running_mean := Some (map_tensor (\<lambda>v. nought_s A) rm)\<rparr>
                 in case running_std m1 of
                      None \<Rightarrow> (Inl AttributeError, m1)
                    | Some rs \<Rightarrow>
                        (let m2 = m1\<lparr>running_std := Some (map_tensor (\<lambda>v. one_s A) rs)\<rparr>
                         in case num_batches_tracked m2 of
                              None \<Rightarrow> (Inl AttributeError, m2)
                            | Some n \<Rightarrow> (Inr (), m2\<lparr>num_batches_tracked := Some 0\<rparr>))))
      else (Inr (), m))"

text \<open>
  \<open>print('std:', use_std[0,:,0,0])\<close>: what is printed is not modelled, but the index
  raises when dimension 0, 2 or 3 of \<open>use_std\<close> is empty.
\<close>

definition print_std :: "'a tensor4 \<Rightarrow> error + unit" where
  "print_std use_std =
     (if dim0 use_std = 0 \<or> dim2 use_std = 0 \<or> dim3 use_std = 0 then Inl IndexError
      else Inr ())"

text \<open>After \<open>use_mean\<close> and \<open>use_std\<close> are set: the print, and the normalisation.\<close>

definition bn_output ::
  "'a arith \<Rightarrow> 'a PervasiveBatchNorm \<Rightarrow> 'a tensor4 \<Rightarrow> 'a tensor4 \<Rightarrow> 'a tensor4 \<Rightarrow>
   error + 'a tensor4" where
  "bn_output A m x use_mean use_std =
     (case print_std use_std of
        Inl e \<Rightarrow> Inl e
      | Inr _ \<Rightarrow> normalize A (bn_gamma m) x use_mean use_std (bn_eps m) (bn_beta m))"

text \<open>\<open>(1. - maf) * r + maf * v\<close> on tensors.\<close>

definition moving_average ::
  "'a arith \<Rightarrow> 'a \<Rightarrow> 'a tensor4 \<Rightarrow> 'a tensor4 \<Rightarrow> error + 'a tensor4" where
  "moving_average A maf r v =
     broadcast2 (plus_s A) (map_tensor (times_s A (minus_s A (one_s A) maf)) r)
       (map_tensor (times_s A maf) v)"

text \<open>
  The forward pass returns what the call returns or raises, and the module as the call
  leaves it: an attribute assigned before an exception stays assigned. The first
  assignment to \<open>maf\<close> is never read (the branch that reads \<open>maf\<close> assigns it again) and
  the other prints raise nothing, so they are left out.
\<close>

definition PervasiveBatchNorm_forward ::
  "'a arith \<Rightarrow> 'a PervasiveBatchNorm \<Rightarrow> 'a tensor4 \<Rightarrow>
   (error + 'a tensor4) \<times> 'a PervasiveBatchNorm" where
  "PervasiveBatchNorm_forward A m x =
     (if bn_training m \<and> track_running_stats m
      then (case num_batches_tracked m of
              None \<Rightarrow> (Inl AttributeError, m)
            | Some n0 \<Rightarrow>
                (let n = n0 + 1;
                     m1 = m\<lparr>num_batches_tracked := Some n\<rparr>;
                     mean = reduce3 (mean_s A) (reduce0 (mean_s A) x);
                     std = reduce3 (std_s A) (reduce0 (std_s A) x)
                 in case (case momentum m of
                            None \<Rightarrow> if sint n = 0 then Inl ZeroDivisionError
                                    else Inr (divide_s A (one_s A) (float_s A (sint n)))
                          | Some mo \<Rightarrow> Inr mo) of
                      Inl e \<Rightarrow> (Inl e, m1)
                    | Inr maf \<Rightarrow>
                        (case running_mean m1 of
                           None \<Rightarrow> (Inl AttributeError, m1)
                         | Some rm \<Rightarrow>
                             (case moving_average A maf rm mean of
                                Inl e \<Rightarrow> (Inl e, m1)
                              | Inr use_mean \<Rightarrow>
                                  (case running_std m1 of
                                     None \<Rightarrow> (Inl AttributeError, m1)
                                   | Some rs \<Rightarrow>
                                       (case moving_average A maf rs std of
                                          Inl e \<Rightarrow> (Inl e, m1)
                                        | Inr use_std \<Rightarrow>
                                            (case moving_average A maf rm
                                                    (reduce2 (mean_s A) mean) of
                                               Inl e \<Rightarrow> (Inl e, m1)
                                             | Inr rm' \<Rightarrow>
                                                 (let m2 = m1\<lparr>running_mean := Some rm'\<rparr>
                                                  in case moving_average A maf rs
                                                            (reduce2 (mean_s A) std) of
                                                       Inl e \<Rightarrow> (Inl e, m2)
                                                     | Inr rs' \<Rightarrow>
                                                         (let m3 = m2\<lparr>running_std := Some rs'\<rparr>
                                                          in (bn_output A m3 x use_mean use_std,
                                                              m3))))))))))
      else (case running_mean m of
              None \<Rightarrow> (Inl AttributeError, m)
            | Some use_mean \<Rightarrow>
                (case running_std m of
                   None \<Rightarrow> (Inl AttributeError, m)
                 | Some use_std \<Rightarrow> (bn_output A m x use_mean use_std, m))))"


section \<open>A small instance\<close>

text \<open>
  An instance of the framework on integer elements, to run the definitions on: the state
  counts the calls that touch it, a linear map and a convolution check the number of
  channels they were built for, and the masked convolution is the pair of its channel
  numbers.
\<close>

definition T0 :: "(int, unit, int \<times> int, unit, nat) torch" where
  "T0 =
     \<lparr>relu_s = max 0,
      zero_s = 0,
      requires_grad = (\<lambda>x. True),
      checkpoint = (\<lambda>f xs. f xs),
      dropout = (\<lambda>x p tr w. Inr (x, Suc w)),
      linear_parameters = (\<lambda>i out b w. Inr (((), if b then Some () else None), Suc w)),
      xavier_uniform = (\<lambda>p w. (p, Suc w)),
      init_constant = (\<lambda>p r. p),
      linear = (\<lambda>m x.
        if int (dim3 x) = in_features m \<and> 0 \<le> out_features m
        then Inr (x\<lparr>dim3 := nat (out_features m), el := (\<lambda>b t s c. el x b t s 0 + int c)\<rparr>)
        else Inl RuntimeError),
      conv2d_parameters = (\<lambda>i out k st b w. Inr (((), None), Suc w)),
      conv2d = (\<lambda>m x.
        if int (dim1 x) = in_channels m \<and> 0 \<le> out_channels m
        then Inr (x\<lparr>dim1 := nat (out_channels m), el := (\<lambda>b c t s. el x b 0 t s - int c)\<rparr>)
        else Inl RuntimeError),
      MaskedConvolution = (\<lambda>i out k a pad w. Inr ((i, out), Suc w)),
      mconv = (\<lambda>m x inc w.
        if int (dim1 x) = fst m \<and> 0 \<le> snd m
        then Inr (x\<lparr>dim1 := nat (snd m), el := (\<lambda>b c t s. el x b 0 t s + 1)\<rparr>, Suc w)
        else Inl RuntimeError)\<rparr>"

definition args0 :: args where
  "args0 =
     \<lparr>divide_channels = 1, num_layers = 2, growth_rate = 1, args_memory_efficient = True,
      convolution_dropout = 1 / 2, bn_size = 4, args_kernel_size = 3,
      source_dilation = 1, target_dilation = 1\<rparr>"

text \<open>An input of sizes \<open>B = 1, Tt = 1, Ts = 2, C = 2\<close>.\<close>

definition x0 :: "int tensor4" where
  "x0 = \<lparr>dim0 = 1, dim1 = 1, dim2 = 2, dim3 = 2, el = (\<lambda>b t s c. int s - int c)\<rparr>"

definition net0 :: "(unit, int \<times> int) DenseNetNoNorm" where
  "net0 =
     \<lparr>reduce_channels = None,
      dense_layers =
        [\<lparr>memory_efficient = True, drop_rate = 1 / 2,
          conv1 = \<lparr>in_channels = 2, out_channels = 4, kernel_size = 1, stride = 1,
                   conv_weight = (), conv_bias = None\<rparr>,
          mconv2 = (4, 1), training = True\<rparr>,
         \<lparr>memory_efficient = True, drop_rate = 1 / 2,
          conv1 = \<lparr>in_channels = 3, out_channels = 4, kernel_size = 1, stride = 1,
                   conv_weight = (), conv_bias = None\<rparr>,
          mconv2 = (4, 1), training = True\<rparr>],
      output_channels = 4\<rparr>"

text \<open>The first layer of \<open>net0\<close>, and the same layer in evaluation mode.\<close>

definition L0 :: "(unit, int \<times> int) DenseLayer" where
  "L0 =
     \<lparr>memory_efficient = True, drop_rate = 1 / 2,
      conv1 = \<lparr>in_channels = 2, out_channels = 4, kernel_size = 1, stride = 1,
               conv_weight = (), conv_bias = None\<rparr>,
      mconv2 = (4, 1), training = True\<rparr>"

definition L0_eval :: "(unit, int \<times> int) DenseLayer" where
  "L0_eval = L0\<lparr>training := False\<rparr>"

text \<open>
  The input of the first layer for \<open>x0\<close> (sizes \<open>B = 1, C = 2, Tt = 1, Ts = 2\<close>), an encoder
  mask that hides the second source position and a decoder mask that hides nothing.
\<close>

definition f0 :: "int tensor4" where
  "f0 = \<lparr>dim0 = 1, dim1 = 2, dim2 = 1, dim3 = 2, el = (\<lambda>b c t s. int s - int c)\<rparr>"

definition enc0 :: "bool tensor2" where
  "enc0 = \<lparr>len0 = 1, len1 = 2, el2 = (\<lambda>b s. s = 1)\<rparr>"

definition dec0 :: "bool tensor2" where
  "dec0 = \<lparr>len0 = 1, len1 = 1, el2 = (\<lambda>b t. False)\<rparr>"

text \<open>A decoder mask over three target positions, which hides the last one.\<close>

definition dec3 :: "bool tensor2" where
  "dec3 = \<lparr>len0 = 1, len1 = 3, el2 = (\<lambda>b t. t = 2)\<rparr>"

text \<open>Hyper-parameters with a channel reduction by 2, and an input of 4 channels.\<close>

definition args2 :: args where
  "args2 =
     \<lparr>divide_channels = 2, num_layers = 1, growth_rate = 1, args_memory_efficient = False,
      convolution_dropout = 0, bn_size = 4, args_kernel_size = 3,
      source_dilation = 1, target_dilation = 1\<rparr>"

definition x2 :: "int tensor4" where
  "x2 = \<lparr>dim0 = 1, dim1 = 1, dim2 = 2, dim3 = 4, el = (\<lambda>b t s c. int s + int c)\<rparr>"

text \<open>
  Hyper-parameters with \<open>divide_channels = 0\<close>; with \<open>divide_channels = -2\<close> and no layer,
  and the block the constructor returns for them on 5 features; with
  \<open>divide_channels = 1\<close> and no layer, and the block for them on 2 features.
\<close>

definition args_div0 :: args where
  "args_div0 =
     \<lparr>divide_channels = 0, num_layers = 2, growth_rate = 1, args_memory_efficient = True,
      convolution_dropout = 1 / 2, bn_size = 4, args_kernel_size = 3,
      source_dilation = 1, target_dilation = 1\<rparr>"

definition args_neg :: args where
  "args_neg =
     \<lparr>divide_channels = - 2, num_layers = 0, growth_rate = 1, args_memory_efficient = True,
      convolution_dropout = 1 / 2, bn_size = 4, args_kernel_size = 3,
      source_dilation = 1, target_dilation = 1\<rparr>"

definition net_neg :: "(unit, int \<times> int) DenseNetNoNorm" where
  "net_neg = \<lparr>reduce_channels = None, dense_layers = [], output_channels = - 3\<rparr>"

definition args_plain :: args where
  "args_plain =
     \<lparr>divide_channels = 1, num_layers = 0, growth_rate = 1, args_memory_efficient = True,
      convolution_dropout = 1 / 2, bn_size = 4, args_kernel_size = 3,
      source_dilation = 1, target_dilation = 1\<rparr>"

definition net_plain :: "(unit, int \<times> int) DenseNetNoNorm" where
  "net_plain = \<lparr>reduce_channels = None, dense_layers = [], output_channels = 2\<rparr>"

text \<open>
  An instance of the arithmetic on integers, to run the two normalisations on: the mean
  is the integer quotient of the sum by the length, and the place of the standard
  deviation is taken by the sum of the absolute values.
\<close>

definition A0 :: "int arith" where
  "A0 =
     \<lparr>plus_s = (+), minus_s = (-), times_s = (*), divide_s = (div),
      mean_s = (\<lambda>vs. sum_list vs div int (length vs)),
      std_s = (\<lambda>vs. sum_list (map abs vs)),
      nought_s = 0, one_s = 1, float_s = (\<lambda>n. n)\<rparr>"

text \<open>An activation of sizes \<open>B = 2, C = 2, Tt = 1, Ts = 2\<close>.\<close>

definition xn :: "int tensor4" where
  "xn = \<lparr>dim0 = 2, dim1 = 2, dim2 = 1, dim3 = 2,
          el = (\<lambda>b c t s. 8 * int b + 4 * int c + 2 * int s)\<rparr>"

text \<open>
  The batch normalisation that the constructor returns for 2 features without
  \<open>track_running_stats\<close>, and the one it returns with it, put in evaluation mode.
\<close>

definition bn_untracked :: "int PervasiveBatchNorm" where
  "bn_untracked =
     \<lparr>bn_eps = 1, momentum = None,
      bn_gamma = \<lparr>dim0 = 1, dim1 = 2, dim2 = 1, dim3 = 1, el = (\<lambda>b c t s. 1)\<rparr>,
      bn_beta = \<lparr>dim0 = 1, dim1 = 2, dim2 = 1, dim3 = 1, el = (\<lambda>b c t s. 0)\<rparr>,
      track_running_stats = False, running_mean = None, running_std = None,
      num_batches_tracked = None, bn_training = True\<rparr>"

definition bn_tracked :: "int PervasiveBatchNorm" where
  "bn_tracked =
     \<lparr>bn_eps = 1, momentum = None,
      bn_gamma = \<lparr>dim0 = 1, dim1 = 2, dim2 = 1, dim3 = 1, el = (\<lambda>b c t s. 1)\<rparr>,
      bn_beta = \<lparr>dim0 = 1, dim1 = 2, dim2 = 1, dim3 = 1, el = (\<lambda>b c t s. 0)\<rparr>,
      track_running_stats = True,
      running_mean = Some \<lparr>dim0 = 1, dim1 = 2, dim2 = 1, dim3 = 1, el = (\<lambda>b c t s. 0)\<rparr>,
      running_std = Some \<lparr>dim0 = 1, dim1 = 2, dim2 = 1, dim3 = 1, el = (\<lambda>b c t s. 1)\<rparr>,
      num_batches_tracked = Some 0, bn_training = True\<rparr>"

definition bn_eval :: "int PervasiveBatchNorm" where
  "bn_eval = bn_tracked\<lparr>bn_training := False\<rparr>"

text \<open>The layer normalisation that the constructor returns for 3 features.\<close>

definition ln3 :: "int PervasiveLayerNorm" where
  "ln3 =
     \<lparr>ln_eps = 1,
      ln_gamma = \<lparr>dim0 = 1, dim1 = 3, dim2 = 1, dim3 = 1, el = (\<lambda>b c t s. 1)\<rparr>,
      ln_beta = \<lparr>dim0 = 1, dim1 = 3, dim2 = 1, dim3 = 1, el = (\<lambda>b c t s. 0)\<rparr>\<rparr>"

section \<open>Concatenation along the channels\<close>

lemma cat1_Inr:
  "cat1 xs = Inr c \<Longrightarrow>
   xs \<noteq> [] \<and> dim0 c = dim0 (hd xs) \<and> dim1 c = sum_list (map dim1 xs) \<and>
   dim2 c = dim2 (hd xs) \<and> dim3 c = dim3 (hd xs) \<and> el c = cat_el xs (el (hd xs) 0 0 0 0)"
  by (auto simp: cat1_def split: list.splits if_splits)

text \<open>
  Channel \<open>ch\<close> of the \<open>k\<close>-th tensor is found in the concatenation after all the channels
  of the tensors before it.
\<close>

lemma cat_el_nth:
  "k < length xs \<Longrightarrow> ch < dim1 (xs ! k) \<Longrightarrow>
   cat_el xs d b (sum_list (map dim1 (take k xs)) + ch) t s = el (xs ! k) b ch t s"
proof (induction xs arbitrary: k)
  case Nil
  then show ?case by simp
next
  case (Cons x xs)
  then show ?case by (cases k) auto
qed

section \<open>The loop over the layers\<close>

text \<open>
  A run of the loop that returns has appended one output per layer; \<open>ws\<close> are the states
  of the framework before each call and after the last one.
\<close>

lemma run_layers_trace:
  "run_layers T ls fs0 enc dec inc w = Inr (fs, w') \<Longrightarrow>
   \<exists>outs ws. fs = fs0 @ outs \<and> length outs = length ls \<and> length ws = Suc (length ls) \<and>
     ws ! 0 = w \<and> ws ! length ls = w' \<and>
     (\<forall>i<length ls. DenseLayer_forward T (ls ! i) (fs0 @ take i outs) enc dec inc (ws ! i)
        = Inr (outs ! i, ws ! Suc i))"
proof (induction ls arbitrary: fs0 w)
  case Nil
  then show ?case by (intro exI[of _ "[]"] exI[of _ "[w]"]) simp
next
  case (Cons l ls)
  from Cons.prems obtain x w1 where
    f: "DenseLayer_forward T l fs0 enc dec inc w = Inr (x, w1)" and
    r: "run_layers T ls (fs0 @ [x]) enc dec inc w1 = Inr (fs, w')"
    by (auto split: sum.splits)
  from Cons.IH[OF r] obtain outs ws where
    o: "fs = (fs0 @ [x]) @ outs" "length outs = length ls" "length ws = Suc (length ls)"
       "ws ! 0 = w1" "ws ! length ls = w'"
       "\<forall>i<length ls. DenseLayer_forward T (ls ! i) ((fs0 @ [x]) @ take i outs) enc dec inc (ws ! i)
          = Inr (outs ! i, ws ! Suc i)"
    by blast
  show ?case
  proof (intro exI[of _ "x # outs"] exI[of _ "w # ws"] conjI allI impI)
    fix i assume "i < length (l # ls)"
    then show "DenseLayer_forward T ((l # ls) ! i) (fs0 @ take i (x # outs)) enc dec inc ((w # ws) ! i)
        = Inr ((x # outs) ! i, (w # ws) ! Suc i)"
      using f o by (cases i) auto
  qed (use o in auto)
qed

lemma forward_Inr:
  assumes "DenseNetNoNorm_forward T net x enc dec inc w = Inr (y, w')"
  shows "\<exists>x1 fs c.
     (case reduce_channels net of None \<Rightarrow> Inr x | Some m \<Rightarrow> linear T m x) = Inr x1 \<and>
     run_layers T (dense_layers net) [permute_0312 x1] enc dec inc w = Inr (fs, w') \<and>
     cat1 fs = Inr c \<and> y = permute_0231 c"
  using assms unfolding DenseNetNoNorm_forward_def
  by (auto split: sum.splits)

text \<open>The definitions a run on the small instance unfolds.\<close>

lemmas eval_defs = DenseNetNoNorm_forward_def DenseLayer_forward_def bottleneck_function_def
  apply_masks_def cat1_def F_relu_def masked_fill_def permute_0312_def permute_0231_def
  same_outer_def T0_def net0_def x0_def args0_def

lemma forward0: "\<exists>y. DenseNetNoNorm_forward T0 net0 x0 None None () 4 = Inr (y, 8)"
  by (simp add: eval_defs)

section \<open>Dense connectivity\<close>

text \<open>
  Claim C1. In a forward pass of the block that returns \<open>y\<close>, let \<open>x1\<close> be the input after
  the channel reduction. Then there are the outputs \<open>outs\<close> of the layers, one per layer,
  such that layer \<open>i\<close> was called on the list made of the permuted \<open>x1\<close> followed by the
  outputs of the layers \<open>0\<close> to \<open>i - 1\<close>, and returned output \<open>i\<close>; and \<open>y\<close> is, in the
  layout with the channels last, the concatenation along the channels of the permuted
  \<open>x1\<close> and all the outputs: its channels are those of the first map, then those of each
  output in turn.
\<close>

theorem dense_connectivity:
  assumes "DenseNetNoNorm_forward T net x enc dec inc w = Inr (y, w')"
  shows "\<exists>x1 outs ws.
     (case reduce_channels net of None \<Rightarrow> Inr x | Some m \<Rightarrow> linear T m x) = Inr x1 \<and>
     length outs = length (dense_layers net) \<and>
     length ws = Suc (length (dense_layers net)) \<and>
     ws ! 0 = w \<and> ws ! length (dense_layers net) = w' \<and>
     (\<forall>i<length (dense_layers net).
        DenseLayer_forward T (dense_layers net ! i) (permute_0312 x1 # take i outs)
          enc dec inc (ws ! i) = Inr (outs ! i, ws ! Suc i)) \<and>
     cat1 (permute_0312 x1 # outs) = Inr (permute_0312 y) \<and>
     dim3 y = sum_list (map dim1 (permute_0312 x1 # outs)) \<and>
     (\<forall>k<Suc (length (dense_layers net)). \<forall>ch<dim1 ((permute_0312 x1 # outs) ! k). \<forall>b t s.
        el y b t s (sum_list (map dim1 (take k (permute_0312 x1 # outs))) + ch)
          = el ((permute_0312 x1 # outs) ! k) b ch t s)"
proof -
  from forward_Inr[OF assms] obtain x1 fs c where
    a: "(case reduce_channels net of None \<Rightarrow> Inr x | Some m \<Rightarrow> linear T m x) = Inr x1"
       "run_layers T (dense_layers net) [permute_0312 x1] enc dec inc w = Inr (fs, w')"
       "cat1 fs = Inr c" "y = permute_0231 c"
    by blast
  from run_layers_trace[OF a(2)] obtain outs ws where
    o: "fs = [permute_0312 x1] @ outs" "length outs = length (dense_layers net)"
       "length ws = Suc (length (dense_layers net))"
       "ws ! 0 = w" "ws ! length (dense_layers net) = w'"
       "\<forall>i<length (dense_layers net).
          DenseLayer_forward T (dense_layers net ! i) ([permute_0312 x1] @ take i outs)
            enc dec inc (ws ! i) = Inr (outs ! i, ws ! Suc i)"
    by blast
  have pb: "permute_0312 y = c"
    using a(4) by (simp add: permute_0312_def permute_0231_def)
  have fs: "fs = permute_0312 x1 # outs" using o(1) by simp
  from cat1_Inr[OF a(3)] have d: "dim1 c = sum_list (map dim1 fs)"
    and e: "el c = cat_el fs (el (hd fs) 0 0 0 0)" by simp_all
  have els: "el y b t s (sum_list (map dim1 (take k fs)) + ch) = el (fs ! k) b ch t s"
    if "k < length fs" "ch < dim1 (fs ! k)" for k ch b t s
    using cat_el_nth[OF that] a(4) e by (simp add: permute_0231_def)
  show ?thesis
  proof (intro exI[of _ x1] exI[of _ outs] exI[of _ ws] conjI)
    show "\<forall>k<Suc (length (dense_layers net)). \<forall>ch<dim1 ((permute_0312 x1 # outs) ! k). \<forall>b t s.
        el y b t s (sum_list (map dim1 (take k (permute_0312 x1 # outs))) + ch)
          = el ((permute_0312 x1 # outs) ! k) b ch t s"
      using els o(2) unfolding fs by simp
    show "dim3 y = sum_list (map dim1 (permute_0312 x1 # outs))"
      using d a(4) unfolding fs by (simp add: permute_0231_def)
  qed (use a o pb fs in simp_all)
qed

theorem dense_connectivity_witness:
  "\<exists>y w'. DenseNetNoNorm_forward T0 net0 x0 None None () 4 = Inr (y, w') \<and>
   (\<exists>x1 outs ws.
     (case reduce_channels net0 of None \<Rightarrow> Inr x0 | Some m \<Rightarrow> linear T0 m x0) = Inr x1 \<and>
     length outs = length (dense_layers net0) \<and>
     length ws = Suc (length (dense_layers net0)) \<and>
     ws ! 0 = 4 \<and> ws ! length (dense_layers net0) = w' \<and>
     (\<forall>i<length (dense_layers net0).
        DenseLayer_forward T0 (dense_layers net0 ! i) (permute_0312 x1 # take i outs)
          None None () (ws ! i) = Inr (outs ! i, ws ! Suc i)) \<and>
     cat1 (permute_0312 x1 # outs) = Inr (permute_0312 y) \<and>
     dim3 y = sum_list (map dim1 (permute_0312 x1 # outs)) \<and>
     (\<forall>k<Suc (length (dense_layers net0)). \<forall>ch<dim1 ((permute_0312 x1 # outs) ! k). \<forall>b t s.
        el y b t s (sum_list (map dim1 (take k (permute_0312 x1 # outs))) + ch)
          = el ((permute_0312 x1 # outs) ! k) b ch t s))"
proof -
  from forward0 obtain y where h: "DenseNetNoNorm_forward T0 net0 x0 None None () 4 = Inr (y, 8)"
    by blast
  from dense_connectivity[OF h] h show ?thesis by blast
qed

text \<open>A layer more at the end of the loop is one call more, on the list so far.\<close>

lemma run_layers_snoc:
  "run_layers T (ls @ [l]) fs enc dec inc w =
     (case run_layers T ls fs enc dec inc w of
        Inl e \<Rightarrow> Inl e
      | Inr (fs1, w1) \<Rightarrow>
          (case DenseLayer_forward T l fs1 enc dec inc w1 of
             Inl e \<Rightarrow> Inl e
           | Inr (v, w2) \<Rightarrow> Inr (fs1 @ [v], w2)))"
proof (induction ls arbitrary: fs w)
  case Nil
  show ?case by (simp split: sum.splits prod.splits)
next
  case (Cons a ls)
  show ?case
    by (cases "DenseLayer_forward T a fs enc dec inc w") (simp_all add: Cons.IH split: prod.splits)
qed

lemma run_layers_hd:
  "run_layers T ls fs0 enc dec inc w = Inr (fs, w') \<Longrightarrow> \<exists>outs. fs = fs0 @ outs"
proof -
  assume "run_layers T ls fs0 enc dec inc w = Inr (fs, w')"
  from run_layers_trace[OF this] obtain outs ws where "fs = fs0 @ outs" by blast
  then show ?thesis ..
qed

section \<open>The steps of the forward pass\<close>

lemma cat1_same_outer:
  assumes "cat1 xs = Inr c" "k < length xs"
  shows "dim0 (xs ! k) = dim0 (hd xs) \<and> dim2 (xs ! k) = dim2 (hd xs) \<and>
    dim3 (xs ! k) = dim3 (hd xs)"
proof (cases xs)
  case Nil
  with assms show ?thesis by simp
next
  case (Cons x ys)
  with assms(1) have a: "list_all (same_outer x) ys"
    by (simp add: cat1_def split: if_splits)
  show ?thesis
  proof (cases k)
    case 0
    with Cons show ?thesis by simp
  next
    case (Suc j)
    with assms(2) Cons have "j < length ys" by simp
    with a have "same_outer x (ys ! j)" by (simp add: list_all_length)
    with Cons Suc show ?thesis by (simp add: same_outer_def)
  qed
qed

text \<open>
  Claim C2. The forward pass of the block is, in this order: the channel reduction when
  the block has one, the permutation to the layout with the channels first, the loop
  over the layers on the list of features, the concatenation of the list along the
  channels, and the permutation back; an exception of a step is the exception of the
  pass. The loop runs the layers one after the other, each on the list the layers
  before it have extended. In a pass that returns \<open>y\<close>, with \<open>x1\<close> the reduced input and
  \<open>fs\<close> the list the loop returns: \<open>fs\<close> has one map more than there are layers; its
  first map is \<open>x1\<close> with the channels moved from the last place to the second; all its
  maps have the sizes \<open>B, Tt, Ts\<close> of \<open>x1\<close>; and \<open>y\<close> has these sizes and, in its last
  dimension, the channels of every map of \<open>fs\<close> one map after the other, so that its
  first channels are \<open>x1\<close> itself.
\<close>

theorem forward_steps:
  "DenseNetNoNorm_forward T net x enc dec inc w =
     (case (case reduce_channels net of None \<Rightarrow> Inr x | Some m \<Rightarrow> linear T m x) of
        Inl e \<Rightarrow> Inl e
      | Inr x1 \<Rightarrow>
          (case run_layers T (dense_layers net) [permute_0312 x1] enc dec inc w of
             Inl e \<Rightarrow> Inl e
           | Inr (features, w1) \<Rightarrow>
               (case cat1 features of
                  Inl e \<Rightarrow> Inl e
                | Inr c \<Rightarrow> Inr (permute_0231 c, w1)))) \<and>
   run_layers T (ls @ [l]) fs0 enc dec inc w =
     (case run_layers T ls fs0 enc dec inc w of
        Inl e \<Rightarrow> Inl e
      | Inr (fs1, w1) \<Rightarrow>
          (case DenseLayer_forward T l fs1 enc dec inc w1 of
             Inl e \<Rightarrow> Inl e
           | Inr (v, w2) \<Rightarrow> Inr (fs1 @ [v], w2))) \<and>
   (\<forall>y w'. DenseNetNoNorm_forward T net x enc dec inc w = Inr (y, w') \<longrightarrow>
      (\<exists>x1 fs.
         (case reduce_channels net of None \<Rightarrow> Inr x | Some m \<Rightarrow> linear T m x) = Inr x1 \<and>
         run_layers T (dense_layers net) [permute_0312 x1] enc dec inc w = Inr (fs, w') \<and>
         length fs = Suc (length (dense_layers net)) \<and>
         dim0 (fs ! 0) = dim0 x1 \<and> dim1 (fs ! 0) = dim3 x1 \<and>
         dim2 (fs ! 0) = dim1 x1 \<and> dim3 (fs ! 0) = dim2 x1 \<and>
         (\<forall>b c t s. el (fs ! 0) b c t s = el x1 b t s c) \<and>
         (\<forall>k<length fs. dim0 (fs ! k) = dim0 x1 \<and> dim2 (fs ! k) = dim1 x1 \<and>
            dim3 (fs ! k) = dim2 x1) \<and>
         dim0 y = dim0 x1 \<and> dim1 y = dim1 x1 \<and> dim2 y = dim2 x1 \<and>
         dim3 y = sum_list (map dim1 fs) \<and>
         (\<forall>k<length fs. \<forall>ch<dim1 (fs ! k). \<forall>b t s.
            el y b t s (sum_list (map dim1 (take k fs)) + ch) = el (fs ! k) b ch t s) \<and>
         dim3 x1 \<le> dim3 y \<and>
         (\<forall>b t s c. c < dim3 x1 \<longrightarrow> el y b t s c = el x1 b t s c)))"
proof (intro conjI allI impI)
  show "DenseNetNoNorm_forward T net x enc dec inc w =
     (case (case reduce_channels net of None \<Rightarrow> Inr x | Some m \<Rightarrow> linear T m x) of
        Inl e \<Rightarrow> Inl e
      | Inr x1 \<Rightarrow>
          (case run_layers T (dense_layers net) [permute_0312 x1] enc dec inc w of
             Inl e \<Rightarrow> Inl e
           | Inr (features, w1) \<Rightarrow>
               (case cat1 features of
                  Inl e \<Rightarrow> Inl e
                | Inr c \<Rightarrow> Inr (permute_0231 c, w1))))"
    by (simp add: DenseNetNoNorm_forward_def)
  show "run_layers T (ls @ [l]) fs0 enc dec inc w =
     (case run_layers T ls fs0 enc dec inc w of
        Inl e \<Rightarrow> Inl e
      | Inr (fs1, w1) \<Rightarrow>
          (case DenseLayer_forward T l fs1 enc dec inc w1 of
             Inl e \<Rightarrow> Inl e
           | Inr (v, w2) \<Rightarrow> Inr (fs1 @ [v], w2)))"
    by (rule run_layers_snoc)
next
  fix y w'
  assume h: "DenseNetNoNorm_forward T net x enc dec inc w = Inr (y, w')"
  from forward_Inr[OF h] obtain x1 fs c where
    a: "(case reduce_channels net of None \<Rightarrow> Inr x | Some m \<Rightarrow> linear T m x) = Inr x1"
       "run_layers T (dense_layers net) [permute_0312 x1] enc dec inc w = Inr (fs, w')"
       "cat1 fs = Inr c" "y = permute_0231 c"
    by blast
  from run_layers_trace[OF a(2)] obtain outs ws where
    o: "fs = [permute_0312 x1] @ outs" "length outs = length (dense_layers net)"
    by blast
  then have fs: "fs = permute_0312 x1 # outs" and len: "length fs = Suc (length (dense_layers net))"
    by simp_all
  have f0: "dim0 (fs ! 0) = dim0 x1" "dim1 (fs ! 0) = dim3 x1"
      "dim2 (fs ! 0) = dim1 x1" "dim3 (fs ! 0) = dim2 x1"
      "\<forall>b c t s. el (fs ! 0) b c t s = el x1 b t s c"
    unfolding fs by (simp_all add: permute_0312_def)
  have hd: "hd fs = fs ! 0" unfolding fs by simp
  have so: "\<forall>k<length fs. dim0 (fs ! k) = dim0 x1 \<and> dim2 (fs ! k) = dim1 x1 \<and>
            dim3 (fs ! k) = dim2 x1"
    using cat1_same_outer[OF a(3)] f0(1,3,4) unfolding hd by simp
  from cat1_Inr[OF a(3)] have c:
    "dim0 c = dim0 (fs ! 0)" "dim1 c = sum_list (map dim1 fs)"
    "dim2 c = dim2 (fs ! 0)" "dim3 c = dim3 (fs ! 0)"
    "el c = cat_el fs (el (hd fs) 0 0 0 0)"
    unfolding hd by simp_all
  have d: "dim0 y = dim0 x1" "dim1 y = dim1 x1" "dim2 y = dim2 x1"
      "dim3 y = sum_list (map dim1 fs)"
    using a(4) c(1-4) f0(1,3,4) by (simp_all add: permute_0231_def)
  have els: "\<forall>k<length fs. \<forall>ch<dim1 (fs ! k). \<forall>b t s.
            el y b t s (sum_list (map dim1 (take k fs)) + ch) = el (fs ! k) b ch t s"
  proof (intro allI impI)
    fix k ch b t s assume "k < length fs" "ch < dim1 (fs ! k)"
    from cat_el_nth[OF this] a(4) c(5)
    show "el y b t s (sum_list (map dim1 (take k fs)) + ch) = el (fs ! k) b ch t s"
      by (simp add: permute_0231_def)
  qed
  have le: "dim3 x1 \<le> dim3 y" using d(4) f0(2) unfolding fs by simp
  have e: "\<forall>b t s ch. ch < dim3 x1 \<longrightarrow> el y b t s ch = el x1 b t s ch"
  proof (intro allI impI)
    fix b t s ch assume "ch < dim3 x1"
    then show "el y b t s ch = el x1 b t s ch"
      using a(4) c(5) unfolding fs by (simp add: permute_0231_def permute_0312_def)
  qed
  show "\<exists>x1 fs.
         (case reduce_channels net of None \<Rightarrow> Inr x | Some m \<Rightarrow> linear T m x) = Inr x1 \<and>
         run_layers T (dense_layers net) [permute_0312 x1] enc dec inc w = Inr (fs, w') \<and>
         length fs = Suc (length (dense_layers net)) \<and>
         dim0 (fs ! 0) = dim0 x1 \<and> dim1 (fs ! 0) = dim3 x1 \<and>
         dim2 (fs ! 0) = dim1 x1 \<and> dim3 (fs ! 0) = dim2 x1 \<and>
         (\<forall>b c t s. el (fs ! 0) b c t s = el x1 b t s c) \<and>
         (\<forall>k<length fs. dim0 (fs ! k) = dim0 x1 \<and> dim2 (fs ! k) = dim1 x1 \<and>
            dim3 (fs ! k) = dim2 x1) \<and>
         dim0 y = dim0 x1 \<and> dim1 y = dim1 x1 \<and> dim2 y = dim2 x1 \<and>
         dim3 y = sum_list (map dim1 fs) \<and>
         (\<forall>k<length fs. \<forall>ch<dim1 (fs ! k). \<forall>b t s.
            el y b t s (sum_list (map dim1 (take k fs)) + ch) = el (fs ! k) b ch t s) \<and>
         dim3 x1 \<le> dim3 y \<and>
         (\<forall>b t s c. c < dim3 x1 \<longrightarrow> el y b t s c = el x1 b t s c)"
    by (rule exI[of _ x1], rule exI[of _ fs]) (intro conjI a(1,2) len f0 so d els le e)
qed

theorem forward_steps_witness:
  "\<exists>y w'. DenseNetNoNorm_forward T0 net0 x0 None None () 4 = Inr (y, w') \<and>
     (\<exists>x1 fs.
         (case reduce_channels net0 of None \<Rightarrow> Inr x0 | Some m \<Rightarrow> linear T0 m x0) = Inr x1 \<and>
         run_layers T0 (dense_layers net0) [permute_0312 x1] None None () 4 = Inr (fs, w') \<and>
         length fs = Suc (length (dense_layers net0)) \<and>
         dim0 (fs ! 0) = dim0 x1 \<and> dim1 (fs ! 0) = dim3 x1 \<and>
         dim2 (fs ! 0) = dim1 x1 \<and> dim3 (fs ! 0) = dim2 x1 \<and>
         (\<forall>b c t s. el (fs ! 0) b c t s = el x1 b t s c) \<and>
         (\<forall>k<length fs. dim0 (fs ! k) = dim0 x1 \<and> dim2 (fs ! k) = dim1 x1 \<and>
            dim3 (fs ! k) = dim2 x1) \<and>
         dim0 y = dim0 x1 \<and> dim1 y = dim1 x1 \<and> dim2 y = dim2 x1 \<and>
         dim3 y = sum_list (map dim1 fs) \<and>
         (\<forall>k<length fs. \<forall>ch<dim1 (fs ! k). \<forall>b t s.
            el y b t s (sum_list (map dim1 (take k fs)) + ch) = el (fs ! k) b ch t s) \<and>
         dim3 x1 \<le> dim3 y \<and>
         (\<forall>b t s c. c < dim3 x1 \<longrightarrow> el y b t s c = el x1 b t s c))"
proof -
  from forward0 obtain y where h: "DenseNetNoNorm_forward T0 net0 x0 None None () 4 = Inr (y, 8)"
    by blast
  note st = forward_steps[of T0 net0 x0 None None "()" 4 "[]" L0 "[]",
      THEN conjunct2, THEN conjunct2, rule_format, OF h]
  show ?thesis
    by (rule exI[of _ y], rule exI[of _ 8], rule conjI[OF h st])
qed

section \<open>The dense layer\<close>

text \<open>What the masking step leaves at each index.\<close>

lemma bidx_lt [simp]: "i < d \<Longrightarrow> bidx d i = i"
  by (auto simp: bidx_def)

lemma bidx_one [simp]: "bidx (Suc 0) i = 0"
  by (simp add: bidx_def)

lemma bdim_simps [simp]: "bdim d d = d" "bdim d (Suc 0) = d" "bdim (Suc 0) d = d"
  by (simp_all add: bdim_def)

lemma broadcastable_simps [simp]:
  "broadcastable d d" "broadcastable d (Suc 0)" "broadcastable (Suc 0) d"
  by (simp_all add: broadcastable_def)

lemma masked_fill_Inr:
  assumes "masked_fill x m v = Inr y"
  shows "dim0 y = bdim (dim0 x) (dim0 m) \<and> dim1 y = bdim (dim1 x) (dim1 m) \<and>
    dim2 y = bdim (dim2 x) (dim2 m) \<and> dim3 y = bdim (dim3 x) (dim3 m) \<and>
    (\<forall>b c t s. el y b c t s =
       (if el m (bidx (dim0 m) b) (bidx (dim1 m) c) (bidx (dim2 m) t) (bidx (dim3 m) s)
        then v
        else el x (bidx (dim0 x) b) (bidx (dim1 x) c) (bidx (dim2 x) t) (bidx (dim3 x) s)))"
  using assms by (auto simp: masked_fill_def split: if_splits)

text \<open>An index that was brought into a broadcast size is brought into each size alike.\<close>

lemma bidx_bdim [simp]: "bidx m (bidx (bdim m n) i) = bidx m i"
  by (simp add: bidx_def bdim_def)

lemma bidx_bdim2 [simp]: "bidx n (bidx (bdim m n) i) = bidx n i"
  by (simp add: bidx_def bdim_def)

lemma bidx_idem [simp]: "bidx m (bidx m i) = bidx m i"
  by (simp add: bidx_def)

lemma apply_masks_el:
  assumes "apply_masks T tr enc dec x = Inr x1"
  shows "dim0 x1 =
      (if tr then bdim (bdim (dim0 x) (case enc of None \<Rightarrow> 1 | Some m \<Rightarrow> len0 m))
                   (case dec of None \<Rightarrow> 1 | Some m \<Rightarrow> len0 m)
       else dim0 x) \<and>
    dim1 x1 = dim1 x \<and>
    dim2 x1 = (if tr then bdim (dim2 x) (case dec of None \<Rightarrow> 1 | Some m \<Rightarrow> len1 m)
               else dim2 x) \<and>
    dim3 x1 = (if tr then bdim (dim3 x) (case enc of None \<Rightarrow> 1 | Some m \<Rightarrow> len1 m)
               else dim3 x) \<and>
    (\<forall>b<dim0 x1. \<forall>c<dim1 x1. \<forall>t<dim2 x1. \<forall>s<dim3 x1. el x1 b c t s =
       (if tr \<and> ((case enc of None \<Rightarrow> False
                   | Some m \<Rightarrow> el2 m (bidx (len0 m) b) (bidx (len1 m) s)) \<or>
                  (case dec of None \<Rightarrow> False
                   | Some m \<Rightarrow> el2 m (bidx (len0 m) b) (bidx (len1 m) t)))
        then zero_s T
        else el x (bidx (dim0 x) b) (bidx (dim1 x) c) (bidx (dim2 x) t) (bidx (dim3 x) s)))"
proof (cases tr)
  case False
  with assms have "x1 = x" by (simp add: apply_masks_def)
  with False show ?thesis by simp
next
  case True
  show ?thesis
  proof (cases enc)
    case None
    note e = None
    show ?thesis
    proof (cases dec)
      case None
      with assms True e have "x1 = x" by (simp add: apply_masks_def)
      with True e None show ?thesis by simp
    next
      case (Some d)
      with assms True e have "masked_fill x (unsqueeze_1_last d) (zero_s T) = Inr x1"
        by (simp add: apply_masks_def)
      from masked_fill_Inr[OF this] True e Some show ?thesis
        by (simp add: unsqueeze_1_last_def)
    qed
  next
    case (Some m)
    note e = Some
    from assms True e obtain y1 where
      y1: "masked_fill x (unsqueeze_1_1 m) (zero_s T) = Inr y1"
      by (cases "masked_fill x (unsqueeze_1_1 m) (zero_s T)") (simp_all add: apply_masks_def)
    note f1 = masked_fill_Inr[OF y1]
    show ?thesis
    proof (cases dec)
      case None
      with assms True e y1 have "x1 = y1" by (simp add: apply_masks_def)
      with f1 True e None show ?thesis by (simp add: unsqueeze_1_1_def)
    next
      case (Some d)
      with assms True e y1 have "masked_fill y1 (unsqueeze_1_last d) (zero_s T) = Inr x1"
        by (simp add: apply_masks_def)
      from masked_fill_Inr[OF this] f1 True e Some show ?thesis
        by (simp add: unsqueeze_1_1_def unsqueeze_1_last_def)
    qed
  qed
qed

lemma F_relu_simps [simp]:
  "dim0 (F_relu T x) = dim0 x" "dim1 (F_relu T x) = dim1 x"
  "dim2 (F_relu T x) = dim2 x" "dim3 (F_relu T x) = dim3 x"
  "el (F_relu T x) b c t s = relu_s T (el x b c t s)"
  by (simp_all add: F_relu_def)

lemma apply_masks_eval: "\<not> tr \<Longrightarrow> apply_masks T tr enc dec x = Inr x"
  by (simp add: apply_masks_def)

lemma layer_forward_Inr:
  assumes "DenseLayer_forward T L prev enc dec inc w = Inr (y, w')"
  shows "\<exists>x x1 x2 w1.
    (if memory_efficient L \<and> list_ex (requires_grad T) prev
     then checkpoint T (bottleneck_function T L) prev
     else bottleneck_function T L prev) = Inr x \<and>
    apply_masks T (training L) enc dec (F_relu T x) = Inr x1 \<and>
    mconv T (mconv2 L) x1 inc w = Inr (x2, w1) \<and>
    (if drop_rate L \<noteq> 0 then dropout T x2 (drop_rate L) (training L) w1 = Inr (y, w')
     else y = x2 \<and> w' = w1)"
proof -
  let ?B = "if memory_efficient L \<and> list_ex (requires_grad T) prev
     then checkpoint T (bottleneck_function T L) prev
     else bottleneck_function T L prev"
  from assms obtain x where x: "?B = Inr x"
    unfolding DenseLayer_forward_def by (cases ?B) simp_all
  from assms x obtain x1 where x1: "apply_masks T (training L) enc dec (F_relu T x) = Inr x1"
    unfolding DenseLayer_forward_def
    by (cases "apply_masks T (training L) enc dec (F_relu T x)") simp_all
  from assms x x1 obtain x2 w1 where m: "mconv T (mconv2 L) x1 inc w = Inr (x2, w1)"
    unfolding DenseLayer_forward_def
    by (cases "mconv T (mconv2 L) x1 inc w") auto
  from assms x x1 m have
    "(if drop_rate L \<noteq> 0 then dropout T x2 (drop_rate L) (training L) w1 = Inr (y, w')
     else y = x2 \<and> w' = w1)"
    unfolding DenseLayer_forward_def by (simp split: if_splits)
  with x x1 m show ?thesis by blast
qed


lemmas layer_eval_defs = DenseLayer_forward_def bottleneck_function_def
  apply_masks_def cat1_def F_relu_def masked_fill_def unsqueeze_1_1_def unsqueeze_1_last_def
  broadcastable_def bdim_def bidx_def T0_def L0_def L0_eval_def f0_def enc0_def dec0_def
  dec3_def

lemma layer0: "\<exists>y. DenseLayer_forward T0 L0 [f0] (Some enc0) (Some dec3) () 0 = Inr (y, 2)"
  by (simp add: layer_eval_defs)


text \<open>
  Claim C8. When the layer is not in training mode, the masking step returns its
  argument unchanged whatever the masks are, and the forward pass returns the same for
  any two pairs of masks.
\<close>

theorem masks_only_in_training:
  assumes "\<not> training L"
  shows "apply_masks T (training L) enc dec x = Inr x \<and>
    DenseLayer_forward T L prev enc dec inc w = DenseLayer_forward T L prev enc' dec' inc w"
  using assms
  by (simp add: DenseLayer_forward_def apply_masks_eval cong: sum.case_cong)

theorem masks_only_in_training_witness:
  "\<not> training L0_eval \<and>
   apply_masks T0 (training L0_eval) (Some enc0) (Some dec0) f0 = Inr f0 \<and>
   DenseLayer_forward T0 L0_eval [f0] (Some enc0) (Some dec0) () 0
     = DenseLayer_forward T0 L0_eval [f0] None None () 0"
proof -
  have h: "\<not> training L0_eval" by (simp add: L0_eval_def L0_def)
  from masks_only_in_training[OF h, of T0 "Some enc0" "Some dec0" f0 "[f0]" "()" 0 None None] h
  show ?thesis by simp
qed

section \<open>The constructor of the layer and the bottleneck\<close>

lemma nn_Conv2d_Inr:
  "nn_Conv2d T i out k st b w = Inr (m, w') \<Longrightarrow>
   in_channels m = i \<and> out_channels m = out \<and> kernel_size m = k \<and> stride m = st"
  by (auto simp: nn_Conv2d_def split: sum.splits)

lemma DenseLayer_init_Inr:
  assumes "DenseLayer_init T n a w = Inr (L, w')"
  shows "in_channels (conv1 L) = n \<and> out_channels (conv1 L) = bn_size a * growth_rate a \<and>
    kernel_size (conv1 L) = 1 \<and> stride (conv1 L) = 1 \<and>
    memory_efficient L = args_memory_efficient a \<and> drop_rate L = convolution_dropout a \<and>
    training L \<and>
    (\<exists>w1. MaskedConvolution T (bn_size a * growth_rate a) (growth_rate a) (args_kernel_size a) a
       (target_dilation a * (args_kernel_size a - 1) div 2,
        source_dilation a * (args_kernel_size a - 1) div 2) w1 = Inr (mconv2 L, w'))"
proof -
  from assms obtain c1 w1 where
    c: "nn_Conv2d T n (bn_size a * growth_rate a) 1 1 False w = Inr (c1, w1)"
    unfolding DenseLayer_init_def Let_def
    by (cases "nn_Conv2d T n (bn_size a * growth_rate a) 1 1 False w") auto
  let ?M = "MaskedConvolution T (bn_size a * growth_rate a) (growth_rate a) (args_kernel_size a) a
       (target_dilation a * (args_kernel_size a - 1) div 2,
        source_dilation a * (args_kernel_size a - 1) div 2) w1"
  from assms c obtain m2 where m: "?M = Inr (m2, w')" and
    L: "L = \<lparr>memory_efficient = args_memory_efficient a, drop_rate = convolution_dropout a,
             conv1 = c1, mconv2 = m2, training = True\<rparr>"
    unfolding DenseLayer_init_def Let_def
    by (cases ?M) auto
  from nn_Conv2d_Inr[OF c] m L show ?thesis by auto
qed

lemma cat_relu_nth:
  assumes "cat1 inputs = Inr c" "k < length inputs" "ch < dim1 (inputs ! k)"
  shows "el (F_relu T c) b (sum_list (map dim1 (take k inputs)) + ch) t s
    = relu_s T (el (inputs ! k) b ch t s)"
  using cat1_Inr[OF assms(1)] cat_el_nth[OF assms(2,3)] by simp

text \<open>
  Claim C4, amended. \<open>bottleneck_function\<close> is the concatenation of its inputs along the
  channels, then the ReLU, then \<open>conv1\<close>: the tensor given to \<open>conv1\<close> holds, for each
  input in turn, the ReLU of its channels. \<open>conv1\<close> is built as a convolution of kernel
  size 1 and stride 1 from \<open>num_input_features\<close> channels to \<open>bn_size * growth_rate\<close>
  channels; it has fewer output than input channels exactly when
  \<open>bn_size * growth_rate < num_input_features\<close>, which the constructor does not require.
\<close>

theorem bottleneck_composition:
  "bottleneck_function T L inputs =
     (case cat1 inputs of Inl e \<Rightarrow> Inl e | Inr c \<Rightarrow> conv2d T (conv1 L) (F_relu T c)) \<and>
   (\<forall>c. cat1 inputs = Inr c \<longrightarrow>
      dim1 c = sum_list (map dim1 inputs) \<and>
      (\<forall>k<length inputs. \<forall>ch<dim1 (inputs ! k). \<forall>b t s.
         el (F_relu T c) b (sum_list (map dim1 (take k inputs)) + ch) t s
           = relu_s T (el (inputs ! k) b ch t s))) \<and>
   (\<forall>L' w'. DenseLayer_init T n a w = Inr (L', w') \<longrightarrow>
      in_channels (conv1 L') = n \<and> out_channels (conv1 L') = bn_size a * growth_rate a \<and>
      kernel_size (conv1 L') = 1 \<and> stride (conv1 L') = 1 \<and>
      (out_channels (conv1 L') < in_channels (conv1 L') \<longleftrightarrow> bn_size a * growth_rate a < n))"
proof (intro conjI allI impI)
  show "bottleneck_function T L inputs =
     (case cat1 inputs of Inl e \<Rightarrow> Inl e | Inr c \<Rightarrow> conv2d T (conv1 L) (F_relu T c))"
    by (simp add: bottleneck_function_def)
next
  fix c assume "cat1 inputs = Inr c"
  then show "dim1 c = sum_list (map dim1 inputs)" using cat1_Inr by blast
next
  fix c k ch b t s
  assume "cat1 inputs = Inr c" "k < length inputs" "ch < dim1 (inputs ! k)"
  then show "el (F_relu T c) b (sum_list (map dim1 (take k inputs)) + ch) t s
           = relu_s T (el (inputs ! k) b ch t s)"
    by (rule cat_relu_nth)
next
  fix L' w' assume i: "DenseLayer_init T n a w = Inr (L', w')"
  note r = DenseLayer_init_Inr[OF i]
  from r show "in_channels (conv1 L') = n" by blast
  from r show "out_channels (conv1 L') = bn_size a * growth_rate a" by blast
  from r show "kernel_size (conv1 L') = 1" by blast
  from r show "stride (conv1 L') = 1" by blast
  from r show "out_channels (conv1 L') < in_channels (conv1 L') \<longleftrightarrow> bn_size a * growth_rate a < n"
    by simp
qed

lemma layer_init0: "DenseLayer_init T0 2 args0 0 = Inr (L0, 2)"
  by (simp add: DenseLayer_init_def nn_Conv2d_def T0_def args0_def L0_def)

theorem bottleneck_composition_witness:
  "\<exists>c. cat1 [f0] = Inr c \<and> dim1 c = sum_list (map dim1 [f0]) \<and>
     el (F_relu T0 c) 0 (sum_list (map dim1 (take 0 [f0])) + 1) 0 1 = relu_s T0 (el ([f0] ! 0) 0 1 0 1) \<and>
     DenseLayer_init T0 2 args0 0 = Inr (L0, 2) \<and>
     in_channels (conv1 L0) = 2 \<and> out_channels (conv1 L0) = bn_size args0 * growth_rate args0 \<and>
     kernel_size (conv1 L0) = 1 \<and> stride (conv1 L0) = 1"
proof -
  have c: "cat1 [f0] = Inr (f0\<lparr>el := cat_el [f0] (el f0 0 0 0 0)\<rparr>)"
    by (simp add: cat1_def f0_def)
  note b = bottleneck_composition[of T0 L0 "[f0]" 2 args0 0]
  from b c have 1: "dim1 (f0\<lparr>el := cat_el [f0] (el f0 0 0 0 0)\<rparr>) = sum_list (map dim1 [f0])"
    by blast
  have k: "0 < length [f0]" "1 < dim1 ([f0] ! 0)" by (simp_all add: f0_def)
  from b c k have 2: "el (F_relu T0 (f0\<lparr>el := cat_el [f0] (el f0 0 0 0 0)\<rparr>)) 0
      (sum_list (map dim1 (take 0 [f0])) + 1) 0 1 = relu_s T0 (el ([f0] ! 0) 0 1 0 1)"
    by blast
  from b layer_init0 have 3: "in_channels (conv1 L0) = 2 \<and>
     out_channels (conv1 L0) = bn_size args0 * growth_rate args0 \<and>
     kernel_size (conv1 L0) = 1 \<and> stride (conv1 L0) = 1"
    by blast
  from c 1 2 3 layer_init0 show ?thesis by blast
qed

text \<open>
  The claim as stated fails: with \<open>bn_size = 4\<close> and \<open>growth_rate = 1\<close> the layer built
  for 2 input channels has a \<open>conv1\<close> from 2 to 4 channels.
\<close>

theorem bottleneck_not_reducing:
  "DenseLayer_init T0 2 args0 0 = Inr (L0, 2) \<and>
   in_channels (conv1 L0) = 2 \<and> out_channels (conv1 L0) = 4 \<and>
   \<not> out_channels (conv1 L0) < in_channels (conv1 L0)"
  using layer_init0 by (simp add: L0_def)

section \<open>The constructor of the block\<close>

lemma Linear_Inr:
  "Linear T i out b w = Inr (m, w') \<Longrightarrow> in_features m = i \<and> out_features m = out"
  by (auto simp: Linear_def nn_Linear_def Let_def split: sum.splits prod.splits if_splits)

lemma DenseNetNoNorm_init_Inr:
  assumes "DenseNetNoNorm_init T n a w = Inr (net, w')"
  shows "divide_channels a \<noteq> 0 \<and>
    (\<exists>rc w1 w2. 
       (if divide_channels a > 1
        then (case Linear T n (n div divide_channels a) True w of
                Inl e \<Rightarrow> Inl e | Inr (m, w1) \<Rightarrow> Inr (Some m, w1))
        else Inr (None, w)) = Inr (rc, w1) \<and>
       make_layers T a (nat (num_layers a)) (n div divide_channels a) w1
         = Inr ((dense_layers net, output_channels net), w2) \<and>
       reduce_channels net = rc \<and> w' = w2)"
proof -
  let ?R = "if divide_channels a > 1
        then (case Linear T n (n div divide_channels a) True w of
                Inl e \<Rightarrow> Inl e | Inr (m, w1) \<Rightarrow> Inr (Some m, w1))
        else Inr (None, w)"
  from assms obtain rc w1 where r: "?R = Inr (rc, w1)"
    unfolding DenseNetNoNorm_init_def by (cases ?R) auto
  from assms r have d: "divide_channels a \<noteq> 0"
    unfolding DenseNetNoNorm_init_def by (auto split: if_splits)
  let ?M = "make_layers T a (nat (num_layers a)) (n div divide_channels a) w1"
  from assms r d obtain ls nf w2 where m: "?M = Inr ((ls, nf), w2)"
    and n: "net = \<lparr>reduce_channels = rc, dense_layers = ls, output_channels = nf\<rparr>" "w' = w2"
    unfolding DenseNetNoNorm_init_def by (cases ?M) auto
  from r d m n show ?thesis by auto
qed

text \<open>
  Claim C6. A block that the constructor returns holds a linear map from
  \<open>num_init_features\<close> to \<open>num_init_features // divide_channels\<close> features, made by
  \<open>Linear\<close>, when \<open>divide_channels > 1\<close>, and \<open>None\<close> otherwise. The forward pass of a
  block without the map permutes the input itself; that of a block with the map applies
  the map and goes on with its result as a block without the map does.
\<close>

theorem reduce_channels_optional:
  assumes "DenseNetNoNorm_init T n a w = Inr (net, w')"
  shows "(divide_channels a > 1 \<longrightarrow>
      (\<exists>m w1. Linear T n (n div divide_channels a) True w = Inr (m, w1) \<and>
         reduce_channels net = Some m \<and>
         in_features m = n \<and> out_features m = n div divide_channels a)) \<and>
    (\<not> divide_channels a > 1 \<longrightarrow> reduce_channels net = None) \<and>
    (reduce_channels net = None \<longrightarrow>
       DenseNetNoNorm_forward T net x enc dec inc w0 =
         (case run_layers T (dense_layers net) [permute_0312 x] enc dec inc w0 of
            Inl e \<Rightarrow> Inl e
          | Inr (features, w1) \<Rightarrow>
              (case cat1 features of
                 Inl e \<Rightarrow> Inl e
               | Inr c \<Rightarrow> Inr (permute_0231 c, w1)))) \<and>
    (\<forall>m. reduce_channels net = Some m \<longrightarrow>
       DenseNetNoNorm_forward T net x enc dec inc w0 =
         (case linear T m x of
            Inl e \<Rightarrow> Inl e
          | Inr x1 \<Rightarrow>
              DenseNetNoNorm_forward T (net\<lparr>reduce_channels := None\<rparr>) x1 enc dec inc w0))"
proof (intro conjI allI impI)
  note i = DenseNetNoNorm_init_Inr[OF assms]
  {
    assume d: "divide_channels a > 1"
    with i obtain m w1 where
      l: "Linear T n (n div divide_channels a) True w = Inr (m, w1)" and
      r: "reduce_channels net = Some m"
      by (cases "Linear T n (n div divide_channels a) True w") auto
    from Linear_Inr[OF l] l r
    show "\<exists>m w1. Linear T n (n div divide_channels a) True w = Inr (m, w1) \<and>
         reduce_channels net = Some m \<and>
         in_features m = n \<and> out_features m = n div divide_channels a"
      by blast
  }
  {
    assume "\<not> divide_channels a > 1"
    with i show "reduce_channels net = None" by auto
  }
  {
    assume "reduce_channels net = None"
    then show "DenseNetNoNorm_forward T net x enc dec inc w0 =
         (case run_layers T (dense_layers net) [permute_0312 x] enc dec inc w0 of
            Inl e \<Rightarrow> Inl e
          | Inr (features, w1) \<Rightarrow>
              (case cat1 features of
                 Inl e \<Rightarrow> Inl e
               | Inr c \<Rightarrow> Inr (permute_0231 c, w1)))"
      by (simp add: DenseNetNoNorm_forward_def)
  }
  {
    fix m assume "reduce_channels net = Some m"
    then show "DenseNetNoNorm_forward T net x enc dec inc w0 =
         (case linear T m x of
            Inl e \<Rightarrow> Inl e
          | Inr x1 \<Rightarrow>
              DenseNetNoNorm_forward T (net\<lparr>reduce_channels := None\<rparr>) x1 enc dec inc w0)"
      by (simp add: DenseNetNoNorm_forward_def split: sum.splits)
  }
qed

lemmas init_eval_defs = DenseNetNoNorm_init_def Linear_def nn_Linear_def DenseLayer_init_def
  nn_Conv2d_def T0_def

lemma init2: "\<exists>net. DenseNetNoNorm_init T0 4 args2 0 = Inr (net, 4)"
  by (simp add: init_eval_defs args2_def)

lemma init0: "DenseNetNoNorm_init T0 2 args0 0 = Inr (net0, 4)"
  by (simp add: init_eval_defs args0_def net0_def eval_nat_numeral)

theorem reduce_channels_optional_witness:
  "(\<exists>net w' m w1. DenseNetNoNorm_init T0 4 args2 0 = Inr (net, w') \<and>
      1 < divide_channels args2 \<and>
      Linear T0 4 (4 div divide_channels args2) True 0 = Inr (m, w1) \<and>
      reduce_channels net = Some m \<and>
      in_features m = 4 \<and> out_features m = 4 div divide_channels args2 \<and>
      DenseNetNoNorm_forward T0 net x2 None None () w' =
        (case linear T0 m x2 of
           Inl e \<Rightarrow> Inl e
         | Inr x1 \<Rightarrow>
             DenseNetNoNorm_forward T0 (net\<lparr>reduce_channels := None\<rparr>) x1 None None () w')) \<and>
   (\<exists>net w'. DenseNetNoNorm_init T0 2 args0 0 = Inr (net, w') \<and>
      \<not> 1 < divide_channels args0 \<and> reduce_channels net = None \<and>
      DenseNetNoNorm_forward T0 net x0 None None () w' =
         (case run_layers T0 (dense_layers net) [permute_0312 x0] None None () w' of
            Inl e \<Rightarrow> Inl e
          | Inr (features, w1) \<Rightarrow>
              (case cat1 features of
                 Inl e \<Rightarrow> Inl e
               | Inr c \<Rightarrow> Inr (permute_0231 c, w1))))"
proof (rule conjI)
  from init2 obtain net where i: "DenseNetNoNorm_init T0 4 args2 0 = Inr (net, 4)" ..
  have d: "1 < divide_channels args2" by (simp add: args2_def)
  note r = reduce_channels_optional[OF i, of x2 None None "()" 4]
  from r d obtain m w1 where
    m: "Linear T0 4 (4 div divide_channels args2) True 0 = Inr (m, w1)"
       "reduce_channels net = Some m" "in_features m = 4"
       "out_features m = 4 div divide_channels args2"
    by blast
  from r m(2) have f: "DenseNetNoNorm_forward T0 net x2 None None () 4 =
        (case linear T0 m x2 of
           Inl e \<Rightarrow> Inl e
         | Inr x1 \<Rightarrow>
             DenseNetNoNorm_forward T0 (net\<lparr>reduce_channels := None\<rparr>) x1 None None () 4)"
    by blast
  show "\<exists>net w' m w1. DenseNetNoNorm_init T0 4 args2 0 = Inr (net, w') \<and>
      1 < divide_channels args2 \<and>
      Linear T0 4 (4 div divide_channels args2) True 0 = Inr (m, w1) \<and>
      reduce_channels net = Some m \<and>
      in_features m = 4 \<and> out_features m = 4 div divide_channels args2 \<and>
      DenseNetNoNorm_forward T0 net x2 None None () w' =
        (case linear T0 m x2 of
           Inl e \<Rightarrow> Inl e
         | Inr x1 \<Rightarrow>
             DenseNetNoNorm_forward T0 (net\<lparr>reduce_channels := None\<rparr>) x1 None None () w')"
    by (rule exI[of _ net], rule exI[of _ 4], rule exI[of _ m], rule exI[of _ w1])
       (intro conjI i d m f)
next
  have d: "\<not> 1 < divide_channels args0" by (simp add: args0_def)
  note r = reduce_channels_optional[OF init0, of x0 None None "()" 4]
  from r d have n: "reduce_channels net0 = None" by blast
  from r n have f: "DenseNetNoNorm_forward T0 net0 x0 None None () 4 =
         (case run_layers T0 (dense_layers net0) [permute_0312 x0] None None () 4 of
            Inl e \<Rightarrow> Inl e
          | Inr (features, w1) \<Rightarrow>
              (case cat1 features of
                 Inl e \<Rightarrow> Inl e
               | Inr c \<Rightarrow> Inr (permute_0231 c, w1)))"
    by blast
  show "\<exists>net w'. DenseNetNoNorm_init T0 2 args0 0 = Inr (net, w') \<and>
      \<not> 1 < divide_channels args0 \<and> reduce_channels net = None \<and>
      DenseNetNoNorm_forward T0 net x0 None None () w' =
         (case run_layers T0 (dense_layers net) [permute_0312 x0] None None () w' of
            Inl e \<Rightarrow> Inl e
          | Inr (features, w1) \<Rightarrow>
              (case cat1 features of
                 Inl e \<Rightarrow> Inl e
               | Inr c \<Rightarrow> Inr (permute_0231 c, w1)))"
    by (rule exI[of _ net0], rule exI[of _ 4]) (intro conjI init0 d n f)
qed

section \<open>The number of output channels\<close>

lemma make_layers_Inr:
  "make_layers T a k nf w = Inr ((ls, nf'), w') \<Longrightarrow>
   length ls = k \<and> nf' = nf + int k * growth_rate a \<and>
   list_all (\<lambda>L. \<exists>i kk pad w0 w1.
      MaskedConvolution T i (growth_rate a) kk a pad w0 = Inr (mconv2 L, w1)) ls"
proof (induction k arbitrary: nf w ls)
  case 0
  then show ?case by simp
next
  case (Suc k)
  from Suc.prems obtain l w1 where l: "DenseLayer_init T nf a w = Inr (l, w1)"
    by (cases "DenseLayer_init T nf a w") auto
  from Suc.prems l obtain ls1 where
    m: "make_layers T a k (nf + growth_rate a) w1 = Inr ((ls1, nf'), w')" and
    ls: "ls = l # ls1"
    by (cases "make_layers T a k (nf + growth_rate a) w1") auto
  from DenseLayer_init_Inr[OF l] have
    "\<exists>i kk pad w0 w1. MaskedConvolution T i (growth_rate a) kk a pad w0 = Inr (mconv2 l, w1)"
    by blast
  with Suc.IH[OF m] ls show ?case by (simp add: algebra_simps)
qed

lemma layer_out_channels:
  assumes mc: "\<forall>i out k a pad w m w' x inc w0 y w1.
       MaskedConvolution T i out k a pad w = Inr (m, w') \<longrightarrow>
       mconv T m x inc w0 = Inr (y, w1) \<longrightarrow> int (dim1 y) = out"
    and dr: "\<forall>x p tr w y w'. dropout T x p tr w = Inr (y, w') \<longrightarrow> dim1 y = dim1 x"
    and P: "MaskedConvolution T i g kk a pad w0 = Inr (mconv2 L, w1)"
    and f: "DenseLayer_forward T L prev enc dec inc w = Inr (y, w')"
  shows "int (dim1 y) = g"
proof -
  from layer_forward_Inr[OF f] obtain x1 x2 w2 where
    m: "mconv T (mconv2 L) x1 inc w = Inr (x2, w2)" and
    d: "if drop_rate L \<noteq> 0 then dropout T x2 (drop_rate L) (training L) w2 = Inr (y, w')
        else y = x2 \<and> w' = w2"
    by blast
  from mc P m have "int (dim1 x2) = g" by blast
  moreover have "dim1 y = dim1 x2"
  proof (cases "drop_rate L = 0")
    case True
    with d show ?thesis by simp
  next
    case False
    with d have "dropout T x2 (drop_rate L) (training L) w2 = Inr (y, w')" by simp
    with dr show ?thesis by blast
  qed
  ultimately show ?thesis by simp
qed

lemma sum_channels:
  "list_all (\<lambda>v. int (dim1 v) = g) outs \<Longrightarrow>
   int (sum_list (map dim1 outs)) = int (length outs) * g"
  by (induction outs) (simp_all add: algebra_simps)

text \<open>
  Claim C10, amended. When the constructor returns a block for \<open>divide_channels \<ge> 1\<close>
  and \<open>num_layers \<ge> 0\<close>, the block has \<open>num_layers\<close> layers and
  \<open>output_channels = num_init_features // divide_channels + num_layers * growth_rate\<close>.
  If moreover the framework keeps its contracts on channels (a linear map returns
  \<open>out_features\<close> features, a masked convolution returns the output channels it was built
  for, dropout keeps the number of channels), then every forward pass that returns, on
  an input with \<open>num_init_features\<close> channels, of this block or of a block with the same
  modules (in another mode, say), returns a tensor with \<open>output_channels\<close> channels in its
  last dimension.
\<close>

theorem output_channels_invariant:
  assumes init: "DenseNetNoNorm_init T n a w = Inr (net, w')"
    and d: "1 \<le> divide_channels a" and nl: "0 \<le> num_layers a"
  shows "output_channels net = n div divide_channels a + num_layers a * growth_rate a \<and>
    int (length (dense_layers net)) = num_layers a \<and>
    ((\<forall>m x y. linear T m x = Inr y \<longrightarrow> int (dim3 y) = out_features m) \<longrightarrow>
     (\<forall>i out k a pad w m w' x inc w0 y w1.
        MaskedConvolution T i out k a pad w = Inr (m, w') \<longrightarrow>
        mconv T m x inc w0 = Inr (y, w1) \<longrightarrow> int (dim1 y) = out) \<longrightarrow>
     (\<forall>x p tr w y w'. dropout T x p tr w = Inr (y, w') \<longrightarrow> dim1 y = dim1 x) \<longrightarrow>
     (\<forall>net' x enc dec inc w0 y w1.
        reduce_channels net' = reduce_channels net \<longrightarrow>
        map mconv2 (dense_layers net') = map mconv2 (dense_layers net) \<longrightarrow>
        int (dim3 x) = n \<longrightarrow>
        DenseNetNoNorm_forward T net' x enc dec inc w0 = Inr (y, w1) \<longrightarrow>
        int (dim3 y) = output_channels net))"
proof -
  let ?g = "growth_rate a"
  let ?P = "\<lambda>m. \<exists>i kk pad w0 w1. MaskedConvolution T i ?g kk a pad w0 = Inr (m, w1)"
  from DenseNetNoNorm_init_Inr[OF init] obtain rc w1 w2 where
    r: "(if divide_channels a > 1
        then (case Linear T n (n div divide_channels a) True w of
                Inl e \<Rightarrow> Inl e | Inr (m, w1) \<Rightarrow> Inr (Some m, w1))
        else Inr (None, w)) = Inr (rc, w1)" and
    m: "make_layers T a (nat (num_layers a)) (n div divide_channels a) w1
         = Inr ((dense_layers net, output_channels net), w2)" and
    rc: "reduce_channels net = rc"
    by blast
  from make_layers_Inr[OF m] nl have
    len: "length (dense_layers net) = nat (num_layers a)" and
    oc: "output_channels net = n div divide_channels a + num_layers a * ?g" and
    P: "list_all (\<lambda>L. ?P (mconv2 L)) (dense_layers net)"
    by simp_all
  have fw: "int (dim3 y) = output_channels net"
    if lin: "\<forall>m x y. linear T m x = Inr y \<longrightarrow> int (dim3 y) = out_features m"
    and mc: "\<forall>i out k a pad w m w' x inc w0 y w1.
        MaskedConvolution T i out k a pad w = Inr (m, w') \<longrightarrow>
        mconv T m x inc w0 = Inr (y, w1) \<longrightarrow> int (dim1 y) = out"
    and dr: "\<forall>x p tr w y w'. dropout T x p tr w = Inr (y, w') \<longrightarrow> dim1 y = dim1 x"
    and same: "reduce_channels net' = reduce_channels net"
      "map mconv2 (dense_layers net') = map mconv2 (dense_layers net)"
    and inp: "int (dim3 x) = n"
    and f: "DenseNetNoNorm_forward T net' x enc dec inc w0 = Inr (y, w3)"
    for net' x enc dec inc w0 y w3
  proof -
    from forward_Inr[OF f] obtain x1 fs c where
      a: "(case reduce_channels net' of None \<Rightarrow> Inr x | Some m \<Rightarrow> linear T m x) = Inr x1"
         "run_layers T (dense_layers net') [permute_0312 x1] enc dec inc w0 = Inr (fs, w3)"
         "cat1 fs = Inr c" "y = permute_0231 c"
      by blast
    have x1: "int (dim3 x1) = n div divide_channels a"
    proof (cases "divide_channels a > 1")
      case True
      with r rc obtain m w4 where
        l: "Linear T n (n div divide_channels a) True w = Inr (m, w4)" and
        s: "reduce_channels net = Some m"
        by (cases "Linear T n (n div divide_channels a) True w") auto
      from a(1) same(1) s have "linear T m x = Inr x1" by simp
      with lin Linear_Inr[OF l] show ?thesis by auto
    next
      case False
      with d have d1: "divide_channels a = 1" by simp
      from False r rc have "reduce_channels net = None" by auto
      with a(1) same(1) have "x1 = x" by simp
      with inp d1 show ?thesis by simp
    qed
    from run_layers_trace[OF a(2)] obtain outs ws where
      o: "fs = [permute_0312 x1] @ outs" "length outs = length (dense_layers net')"
         "\<forall>i<length (dense_layers net').
            DenseLayer_forward T (dense_layers net' ! i) ([permute_0312 x1] @ take i outs)
              enc dec inc (ws ! i) = Inr (outs ! i, ws ! Suc i)"
      by blast
    have len': "length (dense_layers net') = length (dense_layers net)"
      using same(2) by (metis length_map)
    have each: "int (dim1 (outs ! i)) = ?g" if i: "i < length outs" for i
    proof -
      from i o(2) len' have i': "i < length (dense_layers net)" "i < length (dense_layers net')"
        by simp_all
      from same(2) i' have "mconv2 (dense_layers net' ! i) = mconv2 (dense_layers net ! i)"
        by (metis nth_map)
      moreover from P i' have "?P (mconv2 (dense_layers net ! i))"
        by (simp add: list_all_length)
      ultimately obtain j kk pad w5 w6 where
        "MaskedConvolution T j ?g kk a pad w5 = Inr (mconv2 (dense_layers net' ! i), w6)"
        by auto
      from layer_out_channels[OF mc dr this] o(3) i' show ?thesis by blast
    qed
    then have "list_all (\<lambda>v. int (dim1 v) = ?g) outs" by (simp add: list_all_length)
    from sum_channels[OF this] have
      s: "int (sum_list (map dim1 outs)) = int (length outs) * ?g" .
    from cat1_Inr[OF a(3)] have "dim1 c = sum_list (map dim1 fs)" by simp
    with a(4) o(1) have "int (dim3 y) = int (dim3 x1) + int (sum_list (map dim1 outs))"
      by (simp add: permute_0231_def permute_0312_def)
    with s x1 oc o(2) len' len nl show ?thesis by simp
  qed
  from len nl have "int (length (dense_layers net)) = num_layers a" by simp
  with oc fw show ?thesis by blast
qed


lemma T0_contracts:
  "(\<forall>m x y. linear T0 m x = Inr y \<longrightarrow> int (dim3 y) = out_features m) \<and>
   (\<forall>i out k a pad w m w' x inc w0 y w1.
      MaskedConvolution T0 i out k a pad w = Inr (m, w') \<longrightarrow>
      mconv T0 m x inc w0 = Inr (y, w1) \<longrightarrow> int (dim1 y) = out) \<and>
   (\<forall>x p tr w y w'. dropout T0 x p tr w = Inr (y, w') \<longrightarrow> dim1 y = dim1 x)"
  by (auto simp: T0_def split: if_splits)

theorem output_channels_invariant_witness:
  "\<exists>y w1.
     DenseNetNoNorm_init T0 2 args0 0 = Inr (net0, 4) \<and>
     1 \<le> divide_channels args0 \<and> 0 \<le> num_layers args0 \<and>
     output_channels net0 = 2 div divide_channels args0 + num_layers args0 * growth_rate args0 \<and>
     int (length (dense_layers net0)) = num_layers args0 \<and>
     (\<forall>m x y. linear T0 m x = Inr y \<longrightarrow> int (dim3 y) = out_features m) \<and>
     (\<forall>i out k a pad w m w' x inc w0 y w1.
        MaskedConvolution T0 i out k a pad w = Inr (m, w') \<longrightarrow>
        mconv T0 m x inc w0 = Inr (y, w1) \<longrightarrow> int (dim1 y) = out) \<and>
     (\<forall>x p tr w y w'. dropout T0 x p tr w = Inr (y, w') \<longrightarrow> dim1 y = dim1 x) \<and>
     int (dim3 x0) = 2 \<and>
     DenseNetNoNorm_forward T0 net0 x0 None None () 4 = Inr (y, w1) \<and>
     int (dim3 y) = output_channels net0"
proof -
  have h: "1 \<le> divide_channels args0" "0 \<le> num_layers args0" by (simp_all add: args0_def)
  have x: "int (dim3 x0) = 2" by (simp add: x0_def)
  from forward0 obtain y where
    f: "DenseNetNoNorm_forward T0 net0 x0 None None () 4 = Inr (y, 8)" ..
  note t = output_channels_invariant[OF init0 h]
  note c1 = T0_contracts[THEN conjunct1]
  note c2 = T0_contracts[THEN conjunct2, THEN conjunct1]
  note c3 = T0_contracts[THEN conjunct2, THEN conjunct2]
  from t have t1: "output_channels net0
      = 2 div divide_channels args0 + num_layers args0 * growth_rate args0"
    and t2: "int (length (dense_layers net0)) = num_layers args0"
    by simp_all
  note t3 = t[THEN conjunct2, THEN conjunct2, rule_format]
  have y: "int (dim3 y) = output_channels net0"
    by (rule t3[OF c1[rule_format] c2[rule_format] c3[rule_format] refl refl x f])
  show ?thesis
    by (rule exI[of _ y], rule exI[of _ 8]) (intro conjI init0 h t1 t2 c1 c2 c3 x f y)
qed

text \<open>
  The claim as stated fails. For \<open>divide_channels = 0\<close> the constructor raises; for
  \<open>divide_channels = -2\<close> (and no layer, 5 features) it divides all the same, and
  \<open>output_channels\<close> is \<open>-3\<close>, not 5; and a block without reduction and without layers,
  built for 2 features, returns an input of 4 channels with its 4 channels.
\<close>

theorem output_channels_counterexample:
  "DenseNetNoNorm_init T0 2 args_div0 0 = Inl ZeroDivisionError \<and>
   DenseNetNoNorm_init T0 5 args_neg 0 = Inr (net_neg, 0) \<and>
   output_channels net_neg \<noteq> 5 + num_layers args_neg * growth_rate args_neg \<and>
   DenseNetNoNorm_init T0 2 args_plain 0 = Inr (net_plain, 0) \<and>
   \<not> isl (DenseNetNoNorm_forward T0 net_plain x2 None None () 0) \<and>
   int (dim3 (fst (projr (DenseNetNoNorm_forward T0 net_plain x2 None None () 0))))
     \<noteq> output_channels net_plain"
proof (intro conjI)
  show "DenseNetNoNorm_init T0 2 args_div0 0 = Inl ZeroDivisionError"
    by (simp add: DenseNetNoNorm_init_def args_div0_def)
  show "DenseNetNoNorm_init T0 5 args_neg 0 = Inr (net_neg, 0)"
    by (simp add: DenseNetNoNorm_init_def args_neg_def net_neg_def)
  show "output_channels net_neg \<noteq> 5 + num_layers args_neg * growth_rate args_neg"
    by (simp add: args_neg_def net_neg_def)
  show "DenseNetNoNorm_init T0 2 args_plain 0 = Inr (net_plain, 0)"
    by (simp add: DenseNetNoNorm_init_def args_plain_def net_plain_def)
  show "\<not> isl (DenseNetNoNorm_forward T0 net_plain x2 None None () 0)"
    by (simp add: DenseNetNoNorm_forward_def net_plain_def cat1_def)
  show "int (dim3 (fst (projr (DenseNetNoNorm_forward T0 net_plain x2 None None () 0))))
     \<noteq> output_channels net_plain"
    by (simp add: DenseNetNoNorm_forward_def net_plain_def cat1_def permute_0231_def
        permute_0312_def x2_def)
qed

section \<open>Broadcasting and the normalisation formula\<close>

text \<open>
  The normalisation of \<open>x\<close> by statistics that have one value per pair of a batch and a
  target position (sizes \<open>B, 1, Tt, 1\<close>) and parameters that have one value per channel
  (sizes \<open>1, C, 1, 1\<close>).
\<close>

lemma normalize_rows:
  assumes g: "dim0 gamma = 1" "dim1 gamma = dim1 x" "dim2 gamma = 1" "dim3 gamma = 1"
    and b: "dim0 beta = 1" "dim1 beta = dim1 x" "dim2 beta = 1" "dim3 beta = 1"
    and m: "dim0 mean = dim0 x" "dim1 mean = 1" "dim2 mean = dim2 x" "dim3 mean = 1"
    and s: "dim0 std = dim0 x" "dim1 std = 1" "dim2 std = dim2 x" "dim3 std = 1"
  shows "\<exists>y. normalize A gamma x mean std eps beta = Inr y \<and>
    dim0 y = dim0 x \<and> dim1 y = dim1 x \<and> dim2 y = dim2 x \<and> dim3 y = dim3 x \<and>
    (\<forall>i<dim0 x. \<forall>c<dim1 x. \<forall>t<dim2 x. \<forall>j<dim3 x.
       el y i c t j =
         plus_s A
           (divide_s A
              (times_s A (el gamma 0 c 0 0) (minus_s A (el x i c t j) (el mean i 0 t 0)))
              (plus_s A (el std i 0 t 0) eps))
           (el beta 0 c 0 0))"
  using assms
  by (simp add: normalize_def broadcast2_def map_tensor_def)

text \<open>
  The same with parameters of any number \<open>F\<close> of channels: the framework broadcasts \<open>F\<close>
  with the channels of \<open>x\<close>, and raises when they do not go together.
\<close>

lemma normalize_rows_gen:
  assumes g: "dim0 gamma = 1" "dim2 gamma = 1" "dim3 gamma = 1"
    and b: "dim0 beta = 1" "dim1 beta = dim1 gamma" "dim2 beta = 1" "dim3 beta = 1"
    and m: "dim0 mean = dim0 x" "dim1 mean = 1" "dim2 mean = dim2 x" "dim3 mean = 1"
    and s: "dim0 std = dim0 x" "dim1 std = 1" "dim2 std = dim2 x" "dim3 std = 1"
  shows "if broadcastable (dim1 gamma) (dim1 x)
    then (\<exists>y. normalize A gamma x mean std eps beta = Inr y \<and>
      dim0 y = dim0 x \<and> dim1 y = bdim (dim1 gamma) (dim1 x) \<and>
      dim2 y = dim2 x \<and> dim3 y = dim3 x \<and>
      (\<forall>i<dim0 x. \<forall>c<dim1 y. \<forall>t<dim2 x. \<forall>j<dim3 x.
         el y i c t j =
           plus_s A
             (divide_s A
                (times_s A (el gamma 0 (bidx (dim1 gamma) c) 0 0)
                   (minus_s A (el x i (bidx (dim1 x) c) t j) (el mean i 0 t 0)))
                (plus_s A (el std i 0 t 0) eps))
             (el beta 0 (bidx (dim1 gamma) c) 0 0)))
    else normalize A gamma x mean std eps beta = Inl RuntimeError"
proof (cases "broadcastable (dim1 gamma) (dim1 x)")
  case False
  with assms show ?thesis
    by (simp add: normalize_def broadcast2_def map_tensor_def)
next
  case True
  have bb: "broadcastable (bdim (dim1 gamma) (dim1 x)) (dim1 gamma)"
    using True by (auto simp: broadcastable_def bdim_def)
  have bd: "bdim (bdim (dim1 gamma) (dim1 x)) (dim1 gamma) = bdim (dim1 gamma) (dim1 x)"
    using True by (auto simp: broadcastable_def bdim_def)
  from True bb bd assms show ?thesis
    by (simp add: normalize_def broadcast2_def map_tensor_def)
qed

lemma normalize_channels:
  assumes g: "dim0 gamma = 1" "dim1 gamma = dim1 x" "dim2 gamma = 1" "dim3 gamma = 1"
    and b: "dim0 beta = 1" "dim1 beta = dim1 x" "dim2 beta = 1" "dim3 beta = 1"
    and m: "dim0 mean = 1" "dim1 mean = dim1 x" "dim2 mean = 1" "dim3 mean = 1"
    and s: "dim0 std = 1" "dim1 std = dim1 x" "dim2 std = 1" "dim3 std = 1"
  shows "\<exists>y. normalize A gamma x mean std eps beta = Inr y \<and>
    dim0 y = dim0 x \<and> dim1 y = dim1 x \<and> dim2 y = dim2 x \<and> dim3 y = dim3 x \<and>
    (\<forall>i<dim0 x. \<forall>c<dim1 x. \<forall>t<dim2 x. \<forall>j<dim3 x.
       el y i c t j =
         plus_s A
           (divide_s A
              (times_s A (el gamma 0 c 0 0) (minus_s A (el x i c t j) (el mean 0 c 0 0)))
              (plus_s A (el std 0 c 0 0) eps))
           (el beta 0 c 0 0))"
  using assms
  by (simp add: normalize_def broadcast2_def map_tensor_def)

section \<open>The layer normalisation\<close>

lemma full_Inr:
  "full n0 n1 n2 n3 v = Inr x \<Longrightarrow>
   dim0 x = nat n0 \<and> dim1 x = nat n1 \<and> dim2 x = nat n2 \<and> dim3 x = nat n3 \<and>
   (\<forall>b c t s. el x b c t s = v)"
  by (auto simp: full_def split: if_splits)

lemma PervasiveLayerNorm_init_Inr:
  assumes "PervasiveLayerNorm_init A nf eps = Inr m"
  shows "ln_eps m = eps \<and>
    dim0 (ln_gamma m) = 1 \<and> dim1 (ln_gamma m) = nat nf \<and>
    dim2 (ln_gamma m) = 1 \<and> dim3 (ln_gamma m) = 1 \<and>
    dim0 (ln_beta m) = 1 \<and> dim1 (ln_beta m) = nat nf \<and>
    dim2 (ln_beta m) = 1 \<and> dim3 (ln_beta m) = 1 \<and>
    (\<forall>b c t s. el (ln_gamma m) b c t s = one_s A \<and> el (ln_beta m) b c t s = nought_s A)"
proof -
  from assms obtain g where g: "full 1 nf 1 1 (one_s A) = Inr g"
    unfolding PervasiveLayerNorm_init_def by (cases "full 1 nf 1 1 (one_s A)") auto
  from assms g obtain b where b: "full 1 nf 1 1 (nought_s A) = Inr b"
    and m: "m = \<lparr>ln_eps = eps, ln_gamma = g, ln_beta = b\<rparr>"
    unfolding PervasiveLayerNorm_init_def by (cases "full 1 nf 1 1 (nought_s A)") auto
  from full_Inr[OF g] full_Inr[OF b] m show ?thesis by simp
qed

text \<open>
  Claim C7, amended. The constructor of \<open>PervasiveLayerNorm\<close> returns \<open>gamma\<close> and \<open>beta\<close>
  of sizes \<open>1, num_features, 1, 1\<close>, all ones and all zeros. For parameters of these
  sizes and an activation \<open>x\<close> of sizes \<open>B, C, Tt, Ts\<close> with \<open>C = num_features\<close>, the
  forward pass returns a tensor of the sizes of \<open>x\<close> whose element at \<open>b, c, t, s\<close> is
  \<open>gamma[c] * (x[b,c,t,s] - mean) / (std + eps) + beta[c]\<close>, grouped this way, where
  \<open>mean\<close> is the mean over the last dimension of the means over the channels of \<open>x\<close> at
  \<open>b, t\<close>, and \<open>std\<close> is the standard deviation over the last dimension of the standard
  deviations over the channels. The arithmetic is that of the framework, whatever it is.
  For any other number of channels the framework broadcasts: when \<open>C\<close> or
  \<open>num_features\<close> is 1 the pass returns the same expression with the one channel
  repeated, and otherwise it raises.
\<close>

theorem layer_norm_formula:
  "(\<forall>m0. PervasiveLayerNorm_init A nf eps = Inr m0 \<longrightarrow>
      ln_eps m0 = eps \<and>
      dim0 (ln_gamma m0) = 1 \<and> dim1 (ln_gamma m0) = nat nf \<and>
      dim2 (ln_gamma m0) = 1 \<and> dim3 (ln_gamma m0) = 1 \<and>
      dim0 (ln_beta m0) = 1 \<and> dim1 (ln_beta m0) = nat nf \<and>
      dim2 (ln_beta m0) = 1 \<and> dim3 (ln_beta m0) = 1 \<and>
      (\<forall>b c t s. el (ln_gamma m0) b c t s = one_s A \<and> el (ln_beta m0) b c t s = nought_s A)) \<and>
   (dim0 (ln_gamma m) = 1 \<and> dim1 (ln_gamma m) = dim1 x \<and>
    dim2 (ln_gamma m) = 1 \<and> dim3 (ln_gamma m) = 1 \<and>
    dim0 (ln_beta m) = 1 \<and> dim1 (ln_beta m) = dim1 x \<and>
    dim2 (ln_beta m) = 1 \<and> dim3 (ln_beta m) = 1 \<longrightarrow>
    (\<exists>y. PervasiveLayerNorm_forward A m x = Inr y \<and>
       dim0 y = dim0 x \<and> dim1 y = dim1 x \<and> dim2 y = dim2 x \<and> dim3 y = dim3 x \<and>
       (\<forall>b<dim0 x. \<forall>c<dim1 x. \<forall>t<dim2 x. \<forall>s<dim3 x.
          el y b c t s =
            plus_s A
              (divide_s A
                 (times_s A (el (ln_gamma m) 0 c 0 0)
                    (minus_s A (el x b c t s)
                       (mean_s A (map (\<lambda>j. mean_s A (map (\<lambda>k. el x b k t j) [0..<dim1 x]))
                          [0..<dim3 x]))))
                 (plus_s A
                    (std_s A (map (\<lambda>j. std_s A (map (\<lambda>k. el x b k t j) [0..<dim1 x]))
                       [0..<dim3 x]))
                    (ln_eps m)))
              (el (ln_beta m) 0 c 0 0)))) \<and>
   (dim0 (ln_gamma m) = 1 \<and> dim2 (ln_gamma m) = 1 \<and> dim3 (ln_gamma m) = 1 \<and>
    dim0 (ln_beta m) = 1 \<and> dim1 (ln_beta m) = dim1 (ln_gamma m) \<and>
    dim2 (ln_beta m) = 1 \<and> dim3 (ln_beta m) = 1 \<longrightarrow>
    (if broadcastable (dim1 (ln_gamma m)) (dim1 x)
     then (\<exists>y. PervasiveLayerNorm_forward A m x = Inr y \<and>
       dim0 y = dim0 x \<and> dim1 y = bdim (dim1 (ln_gamma m)) (dim1 x) \<and>
       dim2 y = dim2 x \<and> dim3 y = dim3 x \<and>
       (\<forall>b<dim0 x. \<forall>c<dim1 y. \<forall>t<dim2 x. \<forall>s<dim3 x.
          el y b c t s =
            plus_s A
              (divide_s A
                 (times_s A (el (ln_gamma m) 0 (bidx (dim1 (ln_gamma m)) c) 0 0)
                    (minus_s A (el x b (bidx (dim1 x) c) t s)
                       (mean_s A (map (\<lambda>j. mean_s A (map (\<lambda>k. el x b k t j) [0..<dim1 x]))
                          [0..<dim3 x]))))
                 (plus_s A
                    (std_s A (map (\<lambda>j. std_s A (map (\<lambda>k. el x b k t j) [0..<dim1 x]))
                       [0..<dim3 x]))
                    (ln_eps m)))
              (el (ln_beta m) 0 (bidx (dim1 (ln_gamma m)) c) 0 0)))
     else PervasiveLayerNorm_forward A m x = Inl RuntimeError))"
proof (intro conjI)
  show "\<forall>m0. PervasiveLayerNorm_init A nf eps = Inr m0 \<longrightarrow>
      ln_eps m0 = eps \<and>
      dim0 (ln_gamma m0) = 1 \<and> dim1 (ln_gamma m0) = nat nf \<and>
      dim2 (ln_gamma m0) = 1 \<and> dim3 (ln_gamma m0) = 1 \<and>
      dim0 (ln_beta m0) = 1 \<and> dim1 (ln_beta m0) = nat nf \<and>
      dim2 (ln_beta m0) = 1 \<and> dim3 (ln_beta m0) = 1 \<and>
      (\<forall>b c t s. el (ln_gamma m0) b c t s = one_s A \<and> el (ln_beta m0) b c t s = nought_s A)"
  proof (rule allI, rule impI)
  fix m0 assume "PervasiveLayerNorm_init A nf eps = Inr m0"
  from PervasiveLayerNorm_init_Inr[OF this]
  show "ln_eps m0 = eps \<and>
      dim0 (ln_gamma m0) = 1 \<and> dim1 (ln_gamma m0) = nat nf \<and>
      dim2 (ln_gamma m0) = 1 \<and> dim3 (ln_gamma m0) = 1 \<and>
      dim0 (ln_beta m0) = 1 \<and> dim1 (ln_beta m0) = nat nf \<and>
      dim2 (ln_beta m0) = 1 \<and> dim3 (ln_beta m0) = 1 \<and>
      (\<forall>b c t s. el (ln_gamma m0) b c t s = one_s A \<and> el (ln_beta m0) b c t s = nought_s A)" .
  qed
next
  show "dim0 (ln_gamma m) = 1 \<and> dim1 (ln_gamma m) = dim1 x \<and>
    dim2 (ln_gamma m) = 1 \<and> dim3 (ln_gamma m) = 1 \<and>
    dim0 (ln_beta m) = 1 \<and> dim1 (ln_beta m) = dim1 x \<and>
    dim2 (ln_beta m) = 1 \<and> dim3 (ln_beta m) = 1 \<longrightarrow>
    (\<exists>y. PervasiveLayerNorm_forward A m x = Inr y \<and>
       dim0 y = dim0 x \<and> dim1 y = dim1 x \<and> dim2 y = dim2 x \<and> dim3 y = dim3 x \<and>
       (\<forall>b<dim0 x. \<forall>c<dim1 x. \<forall>t<dim2 x. \<forall>s<dim3 x.
          el y b c t s =
            plus_s A
              (divide_s A
                 (times_s A (el (ln_gamma m) 0 c 0 0)
                    (minus_s A (el x b c t s)
                       (mean_s A (map (\<lambda>j. mean_s A (map (\<lambda>k. el x b k t j) [0..<dim1 x]))
                          [0..<dim3 x]))))
                 (plus_s A
                    (std_s A (map (\<lambda>j. std_s A (map (\<lambda>k. el x b k t j) [0..<dim1 x]))
                       [0..<dim3 x]))
                    (ln_eps m)))
              (el (ln_beta m) 0 c 0 0)))"
  proof (rule impI)
  assume sh: "dim0 (ln_gamma m) = 1 \<and> dim1 (ln_gamma m) = dim1 x \<and>
    dim2 (ln_gamma m) = 1 \<and> dim3 (ln_gamma m) = 1 \<and>
    dim0 (ln_beta m) = 1 \<and> dim1 (ln_beta m) = dim1 x \<and>
    dim2 (ln_beta m) = 1 \<and> dim3 (ln_beta m) = 1"
  let ?mean = "reduce3 (mean_s A) (reduce1 (mean_s A) x)"
  let ?std = "reduce3 (std_s A) (reduce1 (std_s A) x)"
  have me: "dim0 ?mean = dim0 x" "dim1 ?mean = 1" "dim2 ?mean = dim2 x" "dim3 ?mean = 1"
    and st: "dim0 ?std = dim0 x" "dim1 ?std = 1" "dim2 ?std = dim2 x" "dim3 ?std = 1"
    by (simp_all add: reduce3_def reduce1_def)
  from sh have g: "dim0 (ln_gamma m) = 1" "dim1 (ln_gamma m) = dim1 x"
      "dim2 (ln_gamma m) = 1" "dim3 (ln_gamma m) = 1"
    and b: "dim0 (ln_beta m) = 1" "dim1 (ln_beta m) = dim1 x"
      "dim2 (ln_beta m) = 1" "dim3 (ln_beta m) = 1"
    by simp_all
  from normalize_rows[OF g b me st, of A "ln_eps m"]
  show "\<exists>y. PervasiveLayerNorm_forward A m x = Inr y \<and>
       dim0 y = dim0 x \<and> dim1 y = dim1 x \<and> dim2 y = dim2 x \<and> dim3 y = dim3 x \<and>
       (\<forall>b<dim0 x. \<forall>c<dim1 x. \<forall>t<dim2 x. \<forall>s<dim3 x.
          el y b c t s =
            plus_s A
              (divide_s A
                 (times_s A (el (ln_gamma m) 0 c 0 0)
                    (minus_s A (el x b c t s)
                       (mean_s A (map (\<lambda>j. mean_s A (map (\<lambda>k. el x b k t j) [0..<dim1 x]))
                          [0..<dim3 x]))))
                 (plus_s A
                    (std_s A (map (\<lambda>j. std_s A (map (\<lambda>k. el x b k t j) [0..<dim1 x]))
                       [0..<dim3 x]))
                    (ln_eps m)))
              (el (ln_beta m) 0 c 0 0))"
    by (simp add: PervasiveLayerNorm_forward_def reduce3_def reduce1_def)
  qed
next
  show "(dim0 (ln_gamma m) = 1 \<and> dim2 (ln_gamma m) = 1 \<and> dim3 (ln_gamma m) = 1 \<and>
    dim0 (ln_beta m) = 1 \<and> dim1 (ln_beta m) = dim1 (ln_gamma m) \<and>
    dim2 (ln_beta m) = 1 \<and> dim3 (ln_beta m) = 1 \<longrightarrow>
    (if broadcastable (dim1 (ln_gamma m)) (dim1 x)
     then (\<exists>y. PervasiveLayerNorm_forward A m x = Inr y \<and>
       dim0 y = dim0 x \<and> dim1 y = bdim (dim1 (ln_gamma m)) (dim1 x) \<and>
       dim2 y = dim2 x \<and> dim3 y = dim3 x \<and>
       (\<forall>b<dim0 x. \<forall>c<dim1 y. \<forall>t<dim2 x. \<forall>s<dim3 x.
          el y b c t s =
            plus_s A
              (divide_s A
                 (times_s A (el (ln_gamma m) 0 (bidx (dim1 (ln_gamma m)) c) 0 0)
                    (minus_s A (el x b (bidx (dim1 x) c) t s)
                       (mean_s A (map (\<lambda>j. mean_s A (map (\<lambda>k. el x b k t j) [0..<dim1 x]))
                          [0..<dim3 x]))))
                 (plus_s A
                    (std_s A (map (\<lambda>j. std_s A (map (\<lambda>k. el x b k t j) [0..<dim1 x]))
                       [0..<dim3 x]))
                    (ln_eps m)))
              (el (ln_beta m) 0 (bidx (dim1 (ln_gamma m)) c) 0 0)))
     else PervasiveLayerNorm_forward A m x = Inl RuntimeError))"
  proof (rule impI)
    assume sh: "dim0 (ln_gamma m) = 1 \<and> dim2 (ln_gamma m) = 1 \<and> dim3 (ln_gamma m) = 1 \<and>
      dim0 (ln_beta m) = 1 \<and> dim1 (ln_beta m) = dim1 (ln_gamma m) \<and>
      dim2 (ln_beta m) = 1 \<and> dim3 (ln_beta m) = 1"
    let ?mean = "reduce3 (mean_s A) (reduce1 (mean_s A) x)"
    let ?std = "reduce3 (std_s A) (reduce1 (std_s A) x)"
    have me: "dim0 ?mean = dim0 x" "dim1 ?mean = 1" "dim2 ?mean = dim2 x" "dim3 ?mean = 1"
      and st: "dim0 ?std = dim0 x" "dim1 ?std = 1" "dim2 ?std = dim2 x" "dim3 ?std = 1"
      by (simp_all add: reduce3_def reduce1_def)
    from sh have g: "dim0 (ln_gamma m) = 1" "dim2 (ln_gamma m) = 1" "dim3 (ln_gamma m) = 1"
      and b: "dim0 (ln_beta m) = 1" "dim1 (ln_beta m) = dim1 (ln_gamma m)"
        "dim2 (ln_beta m) = 1" "dim3 (ln_beta m) = 1"
      by simp_all
    from normalize_rows_gen[OF g b me st, of A "ln_eps m"]
    show "if broadcastable (dim1 (ln_gamma m)) (dim1 x)
     then (\<exists>y. PervasiveLayerNorm_forward A m x = Inr y \<and>
       dim0 y = dim0 x \<and> dim1 y = bdim (dim1 (ln_gamma m)) (dim1 x) \<and>
       dim2 y = dim2 x \<and> dim3 y = dim3 x \<and>
       (\<forall>b<dim0 x. \<forall>c<dim1 y. \<forall>t<dim2 x. \<forall>s<dim3 x.
          el y b c t s =
            plus_s A
              (divide_s A
                 (times_s A (el (ln_gamma m) 0 (bidx (dim1 (ln_gamma m)) c) 0 0)
                    (minus_s A (el x b (bidx (dim1 x) c) t s)
                       (mean_s A (map (\<lambda>j. mean_s A (map (\<lambda>k. el x b k t j) [0..<dim1 x]))
                          [0..<dim3 x]))))
                 (plus_s A
                    (std_s A (map (\<lambda>j. std_s A (map (\<lambda>k. el x b k t j) [0..<dim1 x]))
                       [0..<dim3 x]))
                    (ln_eps m)))
              (el (ln_beta m) 0 (bidx (dim1 (ln_gamma m)) c) 0 0)))
     else PervasiveLayerNorm_forward A m x = Inl RuntimeError"
      by (simp add: PervasiveLayerNorm_forward_def reduce3_def reduce1_def cong: if_cong)
  qed
qed


lemma ln_init0: "\<exists>m. PervasiveLayerNorm_init A0 2 1 = Inr m"
  by (simp add: PervasiveLayerNorm_init_def full_def)

theorem layer_norm_formula_witness:
  "\<exists>m y. PervasiveLayerNorm_init A0 2 1 = Inr m \<and>
     ln_eps m = 1 \<and> el (ln_gamma m) 0 1 0 0 = one_s A0 \<and> el (ln_beta m) 0 1 0 0 = nought_s A0 \<and>
     dim0 (ln_gamma m) = 1 \<and> dim1 (ln_gamma m) = dim1 xn \<and>
     dim2 (ln_gamma m) = 1 \<and> dim3 (ln_gamma m) = 1 \<and>
     dim0 (ln_beta m) = 1 \<and> dim1 (ln_beta m) = dim1 xn \<and>
     dim2 (ln_beta m) = 1 \<and> dim3 (ln_beta m) = 1 \<and>
     PervasiveLayerNorm_forward A0 m xn = Inr y \<and>
     dim0 y = dim0 xn \<and> dim1 y = dim1 xn \<and> dim2 y = dim2 xn \<and> dim3 y = dim3 xn \<and>
     (\<forall>b<dim0 xn. \<forall>c<dim1 xn. \<forall>t<dim2 xn. \<forall>s<dim3 xn.
        el y b c t s =
          plus_s A0
            (divide_s A0
               (times_s A0 (el (ln_gamma m) 0 c 0 0)
                  (minus_s A0 (el xn b c t s)
                     (mean_s A0 (map (\<lambda>j. mean_s A0 (map (\<lambda>k. el xn b k t j) [0..<dim1 xn]))
                        [0..<dim3 xn]))))
               (plus_s A0
                  (std_s A0 (map (\<lambda>j. std_s A0 (map (\<lambda>k. el xn b k t j) [0..<dim1 xn]))
                     [0..<dim3 xn]))
                  (ln_eps m)))
            (el (ln_beta m) 0 c 0 0)) \<and>
     dim1 (ln_gamma ln3) = 3 \<and> dim1 xn = 2 \<and>
     PervasiveLayerNorm_forward A0 ln3 xn = Inl RuntimeError"
proof -
  from ln_init0 obtain m where i: "PervasiveLayerNorm_init A0 2 1 = Inr m" ..
  note p = layer_norm_formula[of A0 2 1 m xn, THEN conjunct1, rule_format, OF i]
  have d: "dim1 xn = nat 2" by (simp add: xn_def)
  from p d have sh: "dim0 (ln_gamma m) = 1 \<and> dim1 (ln_gamma m) = dim1 xn \<and>
    dim2 (ln_gamma m) = 1 \<and> dim3 (ln_gamma m) = 1 \<and>
    dim0 (ln_beta m) = 1 \<and> dim1 (ln_beta m) = dim1 xn \<and>
    dim2 (ln_beta m) = 1 \<and> dim3 (ln_beta m) = 1"
    by simp
  note q = layer_norm_formula[of A0 2 1 m xn, THEN conjunct2, THEN conjunct1, rule_format, OF sh]
  from q obtain y where y: "PervasiveLayerNorm_forward A0 m xn = Inr y \<and>
     dim0 y = dim0 xn \<and> dim1 y = dim1 xn \<and> dim2 y = dim2 xn \<and> dim3 y = dim3 xn \<and>
     (\<forall>b<dim0 xn. \<forall>c<dim1 xn. \<forall>t<dim2 xn. \<forall>s<dim3 xn.
        el y b c t s =
          plus_s A0
            (divide_s A0
               (times_s A0 (el (ln_gamma m) 0 c 0 0)
                  (minus_s A0 (el xn b c t s)
                     (mean_s A0 (map (\<lambda>j. mean_s A0 (map (\<lambda>k. el xn b k t j) [0..<dim1 xn]))
                        [0..<dim3 xn]))))
               (plus_s A0
                  (std_s A0 (map (\<lambda>j. std_s A0 (map (\<lambda>k. el xn b k t j) [0..<dim1 xn]))
                     [0..<dim3 xn]))
                  (ln_eps m)))
            (el (ln_beta m) 0 c 0 0))" ..
  from p have p': "ln_eps m = 1 \<and> el (ln_gamma m) 0 1 0 0 = one_s A0 \<and>
    el (ln_beta m) 0 1 0 0 = nought_s A0" by simp
  have sh3: "dim0 (ln_gamma ln3) = 1 \<and> dim2 (ln_gamma ln3) = 1 \<and> dim3 (ln_gamma ln3) = 1 \<and>
    dim0 (ln_beta ln3) = 1 \<and> dim1 (ln_beta ln3) = dim1 (ln_gamma ln3) \<and>
    dim2 (ln_beta ln3) = 1 \<and> dim3 (ln_beta ln3) = 1"
    by (simp add: ln3_def)
  note r = layer_norm_formula[of A0 2 1 ln3 xn, THEN conjunct2, THEN conjunct2, rule_format, OF sh3]
  have d3: "dim1 (ln_gamma ln3) = 3 \<and> dim1 xn = 2"
    by (simp add: ln3_def xn_def)
  then have "\<not> broadcastable (dim1 (ln_gamma ln3)) (dim1 xn)"
    by (simp add: broadcastable_def)
  with r have e: "PervasiveLayerNorm_forward A0 ln3 xn = Inl RuntimeError"
    by simp
  from i p' sh y have "PervasiveLayerNorm_init A0 2 1 = Inr m \<and>
     (ln_eps m = 1 \<and> el (ln_gamma m) 0 1 0 0 = one_s A0 \<and> el (ln_beta m) 0 1 0 0 = nought_s A0) \<and>
     (dim0 (ln_gamma m) = 1 \<and> dim1 (ln_gamma m) = dim1 xn \<and>
      dim2 (ln_gamma m) = 1 \<and> dim3 (ln_gamma m) = 1 \<and>
      dim0 (ln_beta m) = 1 \<and> dim1 (ln_beta m) = dim1 xn \<and>
      dim2 (ln_beta m) = 1 \<and> dim3 (ln_beta m) = 1)"
    by simp
  with y d3 e show ?thesis
    by (intro exI[of _ m] exI[of _ y]) simp
qed

text \<open>
  The claim as stated fails: the layer normalisation built for 3 features raises on an
  activation of 2 channels.
\<close>

theorem layer_norm_mismatch_raises:
  "PervasiveLayerNorm_init A0 3 1 = Inr ln3 \<and>
   PervasiveLayerNorm_forward A0 ln3 xn = Inl RuntimeError"
  by (simp add: PervasiveLayerNorm_init_def full_def A0_def ln3_def
      PervasiveLayerNorm_forward_def normalize_def broadcast2_def broadcastable_def
      reduce1_def reduce3_def xn_def)

section \<open>The batch normalisation\<close>

lemma bn_frame:
  "\<not> (bn_training m \<and> track_running_stats m) \<Longrightarrow> snd (PervasiveBatchNorm_forward A m x) = m"
  by (auto simp: PervasiveBatchNorm_forward_def split: option.splits)

lemma bn_stored:
  "\<not> (bn_training m \<and> track_running_stats m) \<Longrightarrow>
   running_mean m = Some rm \<Longrightarrow> running_std m = Some rs \<Longrightarrow>
   fst (PervasiveBatchNorm_forward A m x) = bn_output A m x rm rs"
  by (auto simp: PervasiveBatchNorm_forward_def)

lemma bn_counts:
  "bn_training m \<and> track_running_stats m \<Longrightarrow> num_batches_tracked m = Some n \<Longrightarrow>
   num_batches_tracked (snd (PervasiveBatchNorm_forward A m x)) = Some (n + 1)"
  by (auto simp: PervasiveBatchNorm_forward_def Let_def split: option.splits sum.splits)

text \<open>
  The frame of the forward pass of \<open>PervasiveBatchNorm\<close>. A call in which
  \<open>self.training\<close> and \<open>self.track_running_stats\<close> do not both hold leaves the module as
  it is, whether it returns or raises; when the module has the buffers \<open>running_mean\<close>
  and \<open>running_std\<close>, the call normalises the input with them as they are stored: for
  buffers and parameters of sizes \<open>1, C, 1, 1\<close> the element at \<open>b, c, t, s\<close> of the result
  is \<open>gamma[c] * (x[b,c,t,s] - running_mean[c]) / (running_std[c] + eps) + beta[c]\<close>. A
  call in which both hold counts the batch in \<open>num_batches_tracked\<close>.
\<close>

theorem batch_norm_frame:
  "(\<not> (bn_training m \<and> track_running_stats m) \<longrightarrow>
      snd (PervasiveBatchNorm_forward A m x) = m \<and>
      (\<forall>rm rs. running_mean m = Some rm \<longrightarrow> running_std m = Some rs \<longrightarrow>
         fst (PervasiveBatchNorm_forward A m x) = bn_output A m x rm rs \<and>
         (dim0 rm = 1 \<and> dim1 rm = dim1 x \<and> dim2 rm = 1 \<and> dim3 rm = 1 \<and>
          dim0 rs = 1 \<and> dim1 rs = dim1 x \<and> dim2 rs = 1 \<and> dim3 rs = 1 \<and>
          dim0 (bn_gamma m) = 1 \<and> dim1 (bn_gamma m) = dim1 x \<and>
          dim2 (bn_gamma m) = 1 \<and> dim3 (bn_gamma m) = 1 \<and>
          dim0 (bn_beta m) = 1 \<and> dim1 (bn_beta m) = dim1 x \<and>
          dim2 (bn_beta m) = 1 \<and> dim3 (bn_beta m) = 1 \<longrightarrow>
          (\<exists>y. fst (PervasiveBatchNorm_forward A m x) = Inr y \<and>
             dim0 y = dim0 x \<and> dim1 y = dim1 x \<and> dim2 y = dim2 x \<and> dim3 y = dim3 x \<and>
             (\<forall>b<dim0 x. \<forall>c<dim1 x. \<forall>t<dim2 x. \<forall>s<dim3 x.
                el y b c t s =
                  plus_s A
                    (divide_s A
                       (times_s A (el (bn_gamma m) 0 c 0 0)
                          (minus_s A (el x b c t s) (el rm 0 c 0 0)))
                       (plus_s A (el rs 0 c 0 0) (bn_eps m)))
                    (el (bn_beta m) 0 c 0 0)))))) \<and>
   (bn_training m \<and> track_running_stats m \<longrightarrow>
      (\<forall>n. num_batches_tracked m = Some n \<longrightarrow>
         num_batches_tracked (snd (PervasiveBatchNorm_forward A m x)) = Some (n + 1)))"
proof (intro conjI impI allI)
  assume "\<not> (bn_training m \<and> track_running_stats m)"
  then show "snd (PervasiveBatchNorm_forward A m x) = m" by (rule bn_frame)
next
  fix rm rs
  assume "\<not> (bn_training m \<and> track_running_stats m)"
    "running_mean m = Some rm" "running_std m = Some rs"
  then show "fst (PervasiveBatchNorm_forward A m x) = bn_output A m x rm rs"
    by (rule bn_stored)
next
  fix rm rs
  assume a: "\<not> (bn_training m \<and> track_running_stats m)"
    "running_mean m = Some rm" "running_std m = Some rs"
  assume sh: "dim0 rm = 1 \<and> dim1 rm = dim1 x \<and> dim2 rm = 1 \<and> dim3 rm = 1 \<and>
          dim0 rs = 1 \<and> dim1 rs = dim1 x \<and> dim2 rs = 1 \<and> dim3 rs = 1 \<and>
          dim0 (bn_gamma m) = 1 \<and> dim1 (bn_gamma m) = dim1 x \<and>
          dim2 (bn_gamma m) = 1 \<and> dim3 (bn_gamma m) = 1 \<and>
          dim0 (bn_beta m) = 1 \<and> dim1 (bn_beta m) = dim1 x \<and>
          dim2 (bn_beta m) = 1 \<and> dim3 (bn_beta m) = 1"
  then have g: "dim0 (bn_gamma m) = 1" "dim1 (bn_gamma m) = dim1 x"
      "dim2 (bn_gamma m) = 1" "dim3 (bn_gamma m) = 1"
    and b: "dim0 (bn_beta m) = 1" "dim1 (bn_beta m) = dim1 x"
      "dim2 (bn_beta m) = 1" "dim3 (bn_beta m) = 1"
    and me: "dim0 rm = 1" "dim1 rm = dim1 x" "dim2 rm = 1" "dim3 rm = 1"
    and st: "dim0 rs = 1" "dim1 rs = dim1 x" "dim2 rs = 1" "dim3 rs = 1"
    by simp_all
  have "bn_output A m x rm rs = normalize A (bn_gamma m) x rm rs (bn_eps m) (bn_beta m)"
    using st by (simp add: bn_output_def print_std_def)
  with bn_stored[OF a] have
    "fst (PervasiveBatchNorm_forward A m x)
      = normalize A (bn_gamma m) x rm rs (bn_eps m) (bn_beta m)"
    by simp
  with normalize_channels[OF g b me st, of A "bn_eps m"]
  show "\<exists>y. fst (PervasiveBatchNorm_forward A m x) = Inr y \<and>
             dim0 y = dim0 x \<and> dim1 y = dim1 x \<and> dim2 y = dim2 x \<and> dim3 y = dim3 x \<and>
             (\<forall>b<dim0 x. \<forall>c<dim1 x. \<forall>t<dim2 x. \<forall>s<dim3 x.
                el y b c t s =
                  plus_s A
                    (divide_s A
                       (times_s A (el (bn_gamma m) 0 c 0 0)
                          (minus_s A (el x b c t s) (el rm 0 c 0 0)))
                       (plus_s A (el rs 0 c 0 0) (bn_eps m)))
                    (el (bn_beta m) 0 c 0 0))"
    by simp
next
  fix n
  assume "bn_training m \<and> track_running_stats m" "num_batches_tracked m = Some n"
  then show "num_batches_tracked (snd (PervasiveBatchNorm_forward A m x)) = Some (n + 1)"
    by (rule bn_counts)
qed

lemma bn_init_tracked: "PervasiveBatchNorm_init A0 2 True 1 None = Inr bn_tracked"
  by (simp add: PervasiveBatchNorm_init_def full_def A0_def bn_tracked_def)

lemma bn_init_untracked: "PervasiveBatchNorm_init A0 2 False 1 None = Inr bn_untracked"
  by (simp add: PervasiveBatchNorm_init_def full_def A0_def bn_untracked_def)

theorem batch_norm_frame_witness:
  "\<exists>y. \<not> (bn_training bn_eval \<and> track_running_stats bn_eval) \<and>
     snd (PervasiveBatchNorm_forward A0 bn_eval xn) = bn_eval \<and>
     fst (PervasiveBatchNorm_forward A0 bn_eval xn) = Inr y \<and>
     dim0 y = dim0 xn \<and> dim1 y = dim1 xn \<and> dim2 y = dim2 xn \<and> dim3 y = dim3 xn \<and>
     (\<forall>b<dim0 xn. \<forall>c<dim1 xn. \<forall>t<dim2 xn. \<forall>s<dim3 xn.
        el y b c t s =
          plus_s A0
            (divide_s A0
               (times_s A0 (el (bn_gamma bn_eval) 0 c 0 0)
                  (minus_s A0 (el xn b c t s) (el (the (running_mean bn_eval)) 0 c 0 0)))
               (plus_s A0 (el (the (running_std bn_eval)) 0 c 0 0) (bn_eps bn_eval)))
            (el (bn_beta bn_eval) 0 c 0 0)) \<and>
     bn_training bn_tracked \<and> track_running_stats bn_tracked \<and>
     num_batches_tracked bn_tracked = Some 0 \<and>
     num_batches_tracked (snd (PervasiveBatchNorm_forward A0 bn_tracked xn)) = Some (0 + 1)"
proof -
  let ?rm = "the (running_mean bn_eval)" and ?rs = "the (running_std bn_eval)"
  have e: "\<not> (bn_training bn_eval \<and> track_running_stats bn_eval)"
    by (simp add: bn_eval_def bn_tracked_def)
  have r: "running_mean bn_eval = Some ?rm" "running_std bn_eval = Some ?rs"
    by (simp_all add: bn_eval_def bn_tracked_def)
  have sh: "dim0 ?rm = 1 \<and> dim1 ?rm = dim1 xn \<and> dim2 ?rm = 1 \<and> dim3 ?rm = 1 \<and>
          dim0 ?rs = 1 \<and> dim1 ?rs = dim1 xn \<and> dim2 ?rs = 1 \<and> dim3 ?rs = 1 \<and>
          dim0 (bn_gamma bn_eval) = 1 \<and> dim1 (bn_gamma bn_eval) = dim1 xn \<and>
          dim2 (bn_gamma bn_eval) = 1 \<and> dim3 (bn_gamma bn_eval) = 1 \<and>
          dim0 (bn_beta bn_eval) = 1 \<and> dim1 (bn_beta bn_eval) = dim1 xn \<and>
          dim2 (bn_beta bn_eval) = 1 \<and> dim3 (bn_beta bn_eval) = 1"
    by (simp add: bn_eval_def bn_tracked_def xn_def)
  have t: "bn_training bn_tracked \<and> track_running_stats bn_tracked"
    and n: "num_batches_tracked bn_tracked = Some 0"
    by (simp_all add: bn_tracked_def)
  note f1 = batch_norm_frame[of bn_eval A0 xn, THEN conjunct1, rule_format, OF e]
  note f2 = f1[THEN conjunct2, rule_format, OF r]
  note f3 = f2[THEN conjunct2, rule_format, OF sh]
  note f4 = batch_norm_frame[of bn_tracked A0 xn, THEN conjunct2, rule_format, OF t n]
  from f3 obtain y where y: "fst (PervasiveBatchNorm_forward A0 bn_eval xn) = Inr y \<and>
     dim0 y = dim0 xn \<and> dim1 y = dim1 xn \<and> dim2 y = dim2 xn \<and> dim3 y = dim3 xn \<and>
     (\<forall>b<dim0 xn. \<forall>c<dim1 xn. \<forall>t<dim2 xn. \<forall>s<dim3 xn.
        el y b c t s =
          plus_s A0
            (divide_s A0
               (times_s A0 (el (bn_gamma bn_eval) 0 c 0 0)
                  (minus_s A0 (el xn b c t s) (el ?rm 0 c 0 0)))
               (plus_s A0 (el ?rs 0 c 0 0) (bn_eps bn_eval)))
            (el (bn_beta bn_eval) 0 c 0 0))" ..
  show ?thesis
    by (rule exI[of _ y]) (intro conjI e f1[THEN conjunct1] y[THEN conjunct1]
        y[THEN conjunct2, THEN conjunct1] y[THEN conjunct2, THEN conjunct2, THEN conjunct1]
        y[THEN conjunct2, THEN conjunct2, THEN conjunct2, THEN conjunct1]
        y[THEN conjunct2, THEN conjunct2, THEN conjunct2, THEN conjunct2, THEN conjunct1]
        y[THEN conjunct2, THEN conjunct2, THEN conjunct2, THEN conjunct2, THEN conjunct2]
        t[THEN conjunct1] t[THEN conjunct2] n f4)
qed

text \<open>
  Claim C9. In a call of the forward pass in which \<open>self.training\<close> and
  \<open>self.track_running_stats\<close> do not both hold, the input is to be normalised with the
  stored \<open>running_mean\<close> and \<open>running_std\<close>. The code does not do so for a module built
  with \<open>track_running_stats=False\<close>: the constructor registers the buffers only under
  \<open>track_running_stats\<close>, and \<open>reset_running_stats\<close> touches them only under it and
  returns, but the else branch of the forward pass reads \<open>self.running_mean\<close> without
  this test, so that the pass raises \<open>AttributeError\<close> in training and in evaluation
  mode. The module is left as it was.
\<close>

theorem batch_norm_untracked_raises:
  "PervasiveBatchNorm_init A0 2 False 1 None = Inr bn_untracked \<and>
   \<not> (bn_training bn_untracked \<and> track_running_stats bn_untracked) \<and>
   PervasiveBatchNorm_forward A0 bn_untracked xn = (Inl AttributeError, bn_untracked) \<and>
   \<not> (bn_training (bn_untracked\<lparr>bn_training := False\<rparr>) \<and>
      track_running_stats (bn_untracked\<lparr>bn_training := False\<rparr>)) \<and>
   PervasiveBatchNorm_forward A0 (bn_untracked\<lparr>bn_training := False\<rparr>) xn
     = (Inl AttributeError, bn_untracked\<lparr>bn_training := False\<rparr>) \<and>
   reset_running_stats A0 bn_untracked = (Inr (), bn_untracked)"
  using bn_init_untracked
  by (simp add: PervasiveBatchNorm_forward_def reset_running_stats_def bn_untracked_def)

end
